theory Spec2Isabelle
  imports Complex_Main
begin

section \<open>The vendor library as seen by the script\<close>

text \<open>
  The script (script.py) talks to three outside parties: the \<open>pyadl\<close> GPU library, the
  \<open>psutil\<close> CPU provider and the system clock. None of them is part of the repository,
  so each call the script makes is modelled by the outcome the call has: the value it
  returns, or the exception it raises.

  Exceptions are values. The script tells \<open>AttributeError\<close> (a sub-reading the device
  does not offer) from every other \<open>Exception\<close>; both carry the text that \<open>str(e)\<close>
  gives. What is not below \<open>Exception\<close> (\<open>KeyboardInterrupt\<close>, \<open>SystemExit\<close>) is no
  failure of a call and is left out. Python floats are taken as real numbers.
\<close>

datatype exn = AttributeError string | OtherException string

fun str_exn :: "exn \<Rightarrow> string" where
  "str_exn (AttributeError m) = m"
| "str_exn (OtherException m) = m"

datatype 'a outcome = Returns 'a | Raises exn

text \<open>One enumerated device: the outcome of each of the four methods the script calls on it.\<close>

record adl_device =
  getCurrentUsage :: "real outcome"
  getCurrentTemperature :: "real outcome"
  getCurrentPower :: "real outcome"
  getCurrentPowerValue :: "real outcome"

record adl_manager =
  getDevices :: "adl_device list outcome"

text \<open>\<open>pyadl.ADLManager.getInstance()\<close>, the bulk initialisation of the library.\<close>

record pyadl_module =
  getInstance :: "adl_manager outcome"

section \<open>Console output\<close>

text \<open>
  Every \<open>print\<close> of the script is one constructor, with the values it formats as
  arguments (the texts are Spanish and not ASCII, and the number formats \<open>:.1f\<close> and
  \<open>:.2f\<close> are the formatter's business). A field of the status line that the script
  renders as \<open>'N/A'\<close> is \<open>NA\<close>.
\<close>

datatype display = NA | Shown real

datatype msg =
    ErrorReadingGpu string                      \<comment> \<open>line 56\<close>
  | StartMonitoring real                        \<comment> \<open>line 64\<close>
  | GpuDetected bool                            \<comment> \<open>line 65\<close>
  | StatusLine real display display display     \<comment> \<open>line 85: CPU, GPU, Temp, Power\<close>
  | Title                                       \<comment> \<open>line 92\<close>
  | Version                                     \<comment> \<open>line 93\<close>
  | CheckingDependencies                        \<comment> \<open>line 96\<close>
  | NeedPsutilPandas                            \<comment> \<open>line 101\<close>
  | PipInstallPsutilPandas                      \<comment> \<open>line 102\<close>
  | AdlUnavailable                              \<comment> \<open>line 106\<close>
  | PipInstallPyadl                             \<comment> \<open>line 107\<close>
  | NeedAdrenalinDrivers                        \<comment> \<open>line 108\<close>
  | RebootAfterDrivers                          \<comment> \<open>line 109\<close>
  | FinalResults                                \<comment> \<open>line 116\<close>
  | CpuAverage real                             \<comment> \<open>line 117\<close>
  | GpuUtilAverage real                         \<comment> \<open>line 121\<close>
  | GpuUtilUnavailable                          \<comment> \<open>line 123\<close>
  | GpuTempAverage real                         \<comment> \<open>line 126\<close>
  | GpuTempUnavailable                          \<comment> \<open>line 128\<close>
  | GpuPowerAverage real                        \<comment> \<open>line 131\<close>
  | GpuPowerUnavailable                         \<comment> \<open>line 133\<close>
  | SavePrompt                                  \<comment> \<open>line 136, the prompt of input\<close>
  | DataSaved string                            \<comment> \<open>line 140\<close>

section \<open>get_amd_gpu_stats\<close>

type_synonym gpu_stats = "real option \<times> real option \<times> real option"

text \<open>
  \<open>try: x = call() except AttributeError: pass\<close> (lines 32-35 and 38-41): the value, or
  \<open>None\<close> when the call raises \<open>AttributeError\<close>; any other exception leaves the block.
\<close>

definition try_attr :: "real outcome \<Rightarrow> exn + real option" where
  "try_attr r =
     (case r of
        Returns v \<Rightarrow> Inr (Some v)
      | Raises (AttributeError m) \<Rightarrow> Inr None
      | Raises (OtherException m) \<Rightarrow> Inl (OtherException m))"

text \<open>
  Lines 44-51: the direct reading in watts; on \<open>AttributeError\<close> the reading in
  milliwatts, divided by 1000 (true division); on a second \<open>AttributeError\<close> nothing.
\<close>

definition power_reading :: "adl_device \<Rightarrow> exn + real option" where
  "power_reading gpu =
     (case getCurrentPower gpu of
        Returns w \<Rightarrow> Inr (Some w)
      | Raises (OtherException m) \<Rightarrow> Inl (OtherException m)
      | Raises (AttributeError m) \<Rightarrow>
          (case getCurrentPowerValue gpu of
             Returns mw \<Rightarrow> Inr (Some (mw / 1000))
           | Raises (AttributeError m') \<Rightarrow> Inr None
           | Raises (OtherException m') \<Rightarrow> Inl (OtherException m')))"

text \<open>
  Lines 18-53, the body of the outer \<open>try\<close>: \<open>Inl e\<close> when the exception \<open>e\<close> leaves it,
  \<open>Inr\<close> of the returned triple otherwise. \<open>if not devices\<close> is true of the empty list.
\<close>

definition read_gpu :: "pyadl_module \<Rightarrow> exn + gpu_stats" where
  "read_gpu pyadl =
     (case getInstance pyadl of
        Raises e \<Rightarrow> Inl e
      | Returns adl_manager \<Rightarrow>
     (case getDevices adl_manager of
        Raises e \<Rightarrow> Inl e
      | Returns devices \<Rightarrow>
     (case devices of
        [] \<Rightarrow> Inr (None, None, None)
      | gpu # others \<Rightarrow>
     (case try_attr (getCurrentUsage gpu) of
        Inl e \<Rightarrow> Inl e
      | Inr utilization \<Rightarrow>
     (case try_attr (getCurrentTemperature gpu) of
        Inl e \<Rightarrow> Inl e
      | Inr temperature \<Rightarrow>
     (case power_reading gpu of
        Inl e \<Rightarrow> Inl e
      | Inr pw \<Rightarrow> Inr (utilization, temperature, pw)))))))"

text \<open>
  The whole function: the returned triple and what it printed. \<open>amd_gpu_available\<close> is
  the module's flag (lines 6-10: whether \<open>import pyadl\<close> succeeded); when it is false the
  library is not there, and the argument \<open>pyadl\<close> is not looked at.
\<close>

definition get_amd_gpu_stats :: "bool \<Rightarrow> pyadl_module \<Rightarrow> gpu_stats \<times> msg list" where
  "get_amd_gpu_stats amd_gpu_available pyadl =
     (if \<not> amd_gpu_available then ((None, None, None), [])
      else case read_gpu pyadl of
             Inr stats \<Rightarrow> (stats, [])
           | Inl e \<Rightarrow> ((None, None, None), [ErrorReadingGpu (str_exn e)]))"

section \<open>Clock and time formats\<close>

text \<open>
  The clock is a real number of seconds. \<open>time.strftime\<close> formats the local time, which the
  operating system derives from the clock: the broken-down time is a record, and the
  function from the clock to it is a parameter (\<open>localtime\<close>) of everything that formats.
\<close>

record tm =
  tm_year :: nat
  tm_mon :: nat
  tm_mday :: nat
  tm_hour :: nat
  tm_min :: nat
  tm_sec :: nat

definition digit_char :: "nat \<Rightarrow> char" where
  "digit_char d = ''0123456789'' ! d"

fun dec :: "nat \<Rightarrow> string" where
  "dec n = (if n < 10 then [digit_char n] else dec (n div 10) @ [digit_char (n mod 10)])"

declare dec.simps [simp del]

definition zpad :: "nat \<Rightarrow> string \<Rightarrow> string" where
  "zpad w s = replicate (w - length s) (CHR ''0'') @ s"

definition strftime_HMS :: "tm \<Rightarrow> string" where
  \<comment> \<open>\<open>time.strftime("%H:%M:%S")\<close>\<close>
  "strftime_HMS t =
     zpad 2 (dec (tm_hour t)) @ '':'' @ zpad 2 (dec (tm_min t)) @ '':'' @ zpad 2 (dec (tm_sec t))"

definition strftime_Ymd_HMS :: "tm \<Rightarrow> string" where
  \<comment> \<open>\<open>time.strftime('%Y%m%d_%H%M%S')\<close>\<close>
  "strftime_Ymd_HMS t =
     zpad 4 (dec (tm_year t)) @ zpad 2 (dec (tm_mon t)) @ zpad 2 (dec (tm_mday t)) @ ''_'' @
     zpad 2 (dec (tm_hour t)) @ zpad 2 (dec (tm_min t)) @ zpad 2 (dec (tm_sec t))"

section \<open>monitor_system\<close>

text \<open>One dictionary appended to \<open>data\<close> (lines 75-81).\<close>

record sample =
  timestamp :: string
  cpu_util :: real
  gpu_util :: "real option"
  gpu_temp :: "real option"
  gpu_power :: "real option"

text \<open>
  What the outside world does during one tick: the value \<open>psutil.cpu_percent\<close> returns,
  how the GPU library behaves, and how long the call of \<open>get_amd_gpu_stats\<close> takes.
\<close>

record tick_env =
  cpu_percent :: real
  pyadl :: pyadl_module
  gpu_read_time :: real

record monitor_state =
  now :: real
  data :: "sample list"
  out :: "msg list"

text \<open>\<open>gpu_util or 'N/A'\<close> (line 85): \<open>None\<close> and 0 are both falsy.\<close>

definition or_NA :: "real option \<Rightarrow> display" where
  "or_NA v = (case v of None \<Rightarrow> NA | Some x \<Rightarrow> if x = 0 then NA else Shown x)"

text \<open>Line 84: the power is formatted whenever it is not \<open>None\<close>.\<close>

definition power_display :: "real option \<Rightarrow> display" where
  "power_display pw = (case pw of None \<Rightarrow> NA | Some p \<Rightarrow> Shown p)"

text \<open>
  Lines 68-85 of the loop body: the readings, the appended row, the status line.
  \<open>psutil.cpu_percent(interval=0.1)\<close> blocks for 0.1 seconds, the GPU read takes the time
  the environment says (a duration, so never less than 0), and nothing else takes time.
  The timestamp is formatted after both reads.
\<close>

definition tick_body :: "bool \<Rightarrow> (real \<Rightarrow> tm) \<Rightarrow> tick_env \<Rightarrow> monitor_state \<Rightarrow> monitor_state" where
  "tick_body amd_gpu_available localtime e s =
     (let t1 = now s + 1 / 10;
          cpu = cpu_percent e;
          (stats, diagnostics) = get_amd_gpu_stats amd_gpu_available (pyadl e);
          (util, temp, pw) = stats;
          t2 = t1 + max 0 (gpu_read_time e);
          row = \<lparr>timestamp = strftime_HMS (localtime t2), cpu_util = cpu,
                 gpu_util = util, gpu_temp = temp, gpu_power = pw\<rparr>;
          line = StatusLine cpu (or_NA util) (or_NA temp) (power_display pw)
      in \<lparr>now = t2, data = data s @ [row], out = out s @ diagnostics @ [line]\<rparr>)"

text \<open>
  \<open>time.sleep(secs)\<close> takes the time it is asked for (a negative argument would raise
  \<open>ValueError\<close>; the script never passes one, see \<open>tick\<close>).
\<close>

definition sleep :: "real \<Rightarrow> monitor_state \<Rightarrow> monitor_state" where
  "sleep secs s = s\<lparr>now := now s + secs\<rparr>"

text \<open>One pass through the loop body, lines 68-87.\<close>

definition tick :: "bool \<Rightarrow> (real \<Rightarrow> tm) \<Rightarrow> real \<Rightarrow> tick_env \<Rightarrow> monitor_state \<Rightarrow> monitor_state" where
  "tick amd_gpu_available localtime interval e s =
     sleep (max 0 (interval - 1 / 10)) (tick_body amd_gpu_available localtime e s)"

text \<open>
  The loop of line 67; \<open>env k\<close> is the environment of tick \<open>k\<close>. Every tick moves the clock
  by 0.1 seconds at least, so the loop ends.
\<close>

function monitor_loop ::
  "bool \<Rightarrow> (real \<Rightarrow> tm) \<Rightarrow> (nat \<Rightarrow> tick_env) \<Rightarrow> real \<Rightarrow> real \<Rightarrow> nat \<Rightarrow> monitor_state \<Rightarrow> monitor_state"
where
  "monitor_loop amd_gpu_available localtime env end_time interval k s =
     (if now s < end_time
      then monitor_loop amd_gpu_available localtime env end_time interval (Suc k)
             (tick amd_gpu_available localtime interval (env k) s)
      else s)"
  by pat_completeness auto
termination
proof (relation "measure (\<lambda>(a, l, env, end_time, interval, k, s). nat \<lceil>(end_time - now s) * 10\<rceil>)",
    goal_cases)
  case 1
  show ?case by simp
next
  case (2 a l env end_time interval k s)
  define s' where "s' = tick a l interval (env k) s"
  have "now s' = now s + 1 / 10 + max 0 (gpu_read_time (env k)) + max 0 (interval - 1 / 10)"
    by (simp add: s'_def tick_def sleep_def tick_body_def Let_def split: prod.splits)
  then have step: "now s + 1 / 10 \<le> now s'"
    by simp
  from 2 have pos: "0 < (end_time - now s) * 10"
    by simp
  from step have "(end_time - now s') * 10 \<le> (end_time - now s) * 10 - 1"
    by simp
  then have "\<lceil>(end_time - now s') * 10\<rceil> \<le> \<lceil>(end_time - now s) * 10 - 1\<rceil>"
    by (rule ceiling_mono)
  also have "\<dots> = \<lceil>(end_time - now s) * 10\<rceil> - 1"
    by simp
  finally have le: "\<lceil>(end_time - now s') * 10\<rceil> \<le> \<lceil>(end_time - now s) * 10\<rceil> - 1" .
  from pos have "0 < \<lceil>(end_time - now s) * 10\<rceil>"
    by simp
  with le have "nat \<lceil>(end_time - now s') * 10\<rceil> < nat \<lceil>(end_time - now s) * 10\<rceil>"
    by linarith
  then show ?case
    by (simp add: s'_def)
qed

declare monitor_loop.simps [simp del]

text \<open>
  Lines 59-89. \<open>t0\<close> is what the clock shows when the function is entered. The result is
  the final state: its \<open>data\<close> is the list handed to \<open>pd.DataFrame\<close>.
\<close>

definition monitor_system ::
  "bool \<Rightarrow> (real \<Rightarrow> tm) \<Rightarrow> (nat \<Rightarrow> tick_env) \<Rightarrow> real \<Rightarrow> real \<Rightarrow> real \<Rightarrow> monitor_state" where
  "monitor_system amd_gpu_available localtime env t0 duration interval =
     (let end_time = t0 + duration
      in monitor_loop amd_gpu_available localtime env end_time interval 0
           \<lparr>now = t0, data = [],
            out = [StartMonitoring duration, GpuDetected amd_gpu_available]\<rparr>)"

section \<open>The data frame and what pandas does with it\<close>

text \<open>
  \<open>pd.DataFrame(data)\<close> for a list of dictionaries: one row per dictionary, the columns
  being the keys of the dictionaries in the order of lines 76-80; an empty list gives a
  frame with no column at all. pandas is not part of the repository: the three operations
  the script uses are written down here as its documentation describes them.
\<close>

record data_frame =
  columns :: "string list"
  rows :: "sample list"

definition DataFrame :: "sample list \<Rightarrow> data_frame" where
  "DataFrame d =
     \<lparr>columns = (if d = [] then []
                 else [''timestamp'', ''cpu_util'', ''gpu_util'', ''gpu_temp'', ''gpu_power'']),
      rows = d\<rparr>"

text \<open>\<open>series.isnull().all()\<close>: every entry of the column is missing.\<close>

definition isnull_all :: "real option list \<Rightarrow> bool" where
  "isnull_all col = list_all (\<lambda>v. v = None) col"

text \<open>
  \<open>series.mean()\<close> skips the missing entries: the sum of the others over their number
  (pandas gives NaN when there is none; the script asks only when there is one).
\<close>

definition dropna :: "real option list \<Rightarrow> real list" where
  "dropna col = map the (filter (\<lambda>v. v \<noteq> None) col)"

definition mean :: "real option list \<Rightarrow> real" where
  "mean col = sum_list (dropna col) / real (length (dropna col))"

text \<open>
  \<open>df.to_csv(filename, index=False)\<close>: the line of column names, then one line per row;
  a missing value is an empty field. The fields are kept apart (the commas are the
  writer's), and a number is kept as a number.
\<close>

datatype cell = Text string | Number real | Empty

record csv_file =
  header :: "string list"
  body :: "cell list list"

definition opt_cell :: "real option \<Rightarrow> cell" where
  "opt_cell v = (case v of None \<Rightarrow> Empty | Some x \<Rightarrow> Number x)"

definition csv_row :: "sample \<Rightarrow> cell list" where
  "csv_row r =
     [Text (timestamp r), Number (cpu_util r),
      opt_cell (gpu_util r), opt_cell (gpu_temp r), opt_cell (gpu_power r)]"

definition to_csv :: "data_frame \<Rightarrow> csv_file" where
  "to_csv df = \<lparr>header = columns df, body = map csv_row (rows df)\<rparr>"

fun join_commas :: "string list \<Rightarrow> string" where
  "join_commas [] = []"
| "join_commas [x] = x"
| "join_commas (x # y # zs) = x @ '','' @ join_commas (y # zs)"

section \<open>main\<close>

text \<open>
  \<open>str.lower()\<close> on the characters a \<open>char\<close> can hold (code points below 256): the
  letters A-Z and the upper-case letters of Latin-1 move by 32, everything else stays.
\<close>

definition lower_char :: "char \<Rightarrow> char" where
  "lower_char c =
     (let n = (of_char c :: nat)
      in if (65 \<le> n \<and> n \<le> 90) \<or> (192 \<le> n \<and> n \<le> 222 \<and> n \<noteq> 215)
         then char_of (n + 32) else c)"

definition lower :: "string \<Rightarrow> string" where
  "lower s = map lower_char s"

text \<open>Lines 116-133: the averages, given the module's flag and the frame.\<close>

definition report :: "bool \<Rightarrow> data_frame \<Rightarrow> msg list" where
  "report amd_gpu_available df =
     [FinalResults, CpuAverage (mean (map (\<lambda>r. Some (cpu_util r)) (rows df)))] @
     (if amd_gpu_available then
        [if \<not> isnull_all (map gpu_util (rows df))
         then GpuUtilAverage (mean (map gpu_util (rows df))) else GpuUtilUnavailable,
         if \<not> isnull_all (map gpu_temp (rows df))
         then GpuTempAverage (mean (map gpu_temp (rows df))) else GpuTempUnavailable,
         if \<not> isnull_all (map gpu_power (rows df))
         then GpuPowerAverage (mean (map gpu_power (rows df))) else GpuPowerUnavailable]
      else [])"

text \<open>
  What a run of \<open>main\<close> leaves behind: what it printed, the frame \<open>monitor_system\<close>
  returned (if it was called), the file it wrote (name and content, if it wrote one), and
  the exception that ended it (if one did).
\<close>

record run =
  printed :: "msg list"
  collection :: "data_frame option"
  saved :: "(string \<times> csv_file) option"
  uncaught :: "exn option"

text \<open>
  Lines 91-140. \<open>core_deps\<close> says whether \<open>import psutil\<close> and \<open>import pandas\<close> succeed
  (lines 97-103), \<open>response\<close> is what \<open>input\<close> returns and \<open>response_time\<close> how long the
  user takes to answer. \<open>df['cpu_util']\<close> raises \<open>KeyError\<close> on a frame with no columns.
\<close>

definition main ::
  "bool \<Rightarrow> bool \<Rightarrow> (real \<Rightarrow> tm) \<Rightarrow> (nat \<Rightarrow> tick_env) \<Rightarrow> real \<Rightarrow> string \<Rightarrow> real \<Rightarrow> run" where
  "main core_deps amd_gpu_available localtime env t0 response response_time =
     (let intro = [Title, Version, CheckingDependencies]
      in if \<not> core_deps then
           \<lparr>printed = intro @ [NeedPsutilPandas, PipInstallPsutilPandas],
            collection = None, saved = None, uncaught = None\<rparr>
         else if \<not> amd_gpu_available then
           \<lparr>printed = intro @ [AdlUnavailable, PipInstallPyadl, NeedAdrenalinDrivers,
                                RebootAfterDrivers],
            collection = None, saved = None, uncaught = None\<rparr>
         else
           let s = monitor_system amd_gpu_available localtime env t0 20 1;
               df = DataFrame (data s)
           in if columns df = [] then
                \<lparr>printed = intro @ out s @ [FinalResults],
                 collection = Some df, saved = None,
                 uncaught = Some (OtherException ''cpu_util'')\<rparr>
              else
                let shown = intro @ out s @ report amd_gpu_available df @ [SavePrompt];
                    save = lower response
                in if save = ''s'' then
                     let filename = ''rx460_monitor_'' @
                           strftime_Ymd_HMS (localtime (now s + max 0 response_time)) @ ''.csv''
                     in \<lparr>printed = shown @ [DataSaved filename],
                         collection = Some df, saved = Some (filename, to_csv df),
                         uncaught = None\<rparr>
                   else
                     \<lparr>printed = shown, collection = Some df, saved = None, uncaught = None\<rparr>)"

section \<open>Notions used to state the properties\<close>

text \<open>
  The seconds of the day that a timestamp \<open>HH:MM:SS\<close> names, and the time between the
  first and the last timestamp of a collection.
\<close>

definition digit_val :: "char \<Rightarrow> nat" where
  "digit_val c = of_char c - 48"

definition seconds_of_HMS :: "string \<Rightarrow> nat" where
  "seconds_of_HMS ts =
     (case ts of
        [h1, h2, c1, m1, m2, c2, s1, s2] \<Rightarrow>
          ((10 * digit_val h1 + digit_val h2) * 60 + (10 * digit_val m1 + digit_val m2)) * 60
            + (10 * digit_val s1 + digit_val s2)
      | _ \<Rightarrow> 0)"

definition timestamp_span :: "sample list \<Rightarrow> int" where
  "timestamp_span d =
     int (seconds_of_HMS (timestamp (last d))) - int (seconds_of_HMS (timestamp (hd d)))"

definition is_digit :: "char \<Rightarrow> bool" where
  "is_digit c \<longleftrightarrow> c \<in> set ''0123456789''"

text \<open>A broken-down time as the C library gives it for a year of four digits.\<close>

definition calendar_tm :: "tm \<Rightarrow> bool" where
  "calendar_tm t \<longleftrightarrow>
     1000 \<le> tm_year t \<and> tm_year t \<le> 9999 \<and> 1 \<le> tm_mon t \<and> tm_mon t \<le> 12 \<and>
     1 \<le> tm_mday t \<and> tm_mday t \<le> 31 \<and> tm_hour t \<le> 23 \<and> tm_min t \<le> 59 \<and> tm_sec t \<le> 61"

text \<open>The library with all devices but the first taken away.\<close>

definition with_devices :: "adl_device list \<Rightarrow> pyadl_module" where
  "with_devices ds = \<lparr>getInstance = Returns \<lparr>getDevices = Returns ds\<rparr>\<rparr>"


text \<open>
  Some call that the read makes raises an exception other than the \<open>AttributeError\<close> of a
  sub-reading the device does not offer: the initialisation or the enumeration raises
  anything, or a sub-reading of the first device raises something else.
\<close>

definition is_unexpected :: "'a outcome \<Rightarrow> bool" where
  "is_unexpected r = (case r of Raises (OtherException m) \<Rightarrow> True | _ \<Rightarrow> False)"

definition is_unsupported :: "'a outcome \<Rightarrow> bool" where
  "is_unsupported r = (case r of Raises (AttributeError m) \<Rightarrow> True | _ \<Rightarrow> False)"

definition fails_unexpectedly :: "pyadl_module \<Rightarrow> bool" where
  "fails_unexpectedly lib =
     (case getInstance lib of
        Raises e \<Rightarrow> True
      | Returns mgr \<Rightarrow>
          (case getDevices mgr of
             Raises e \<Rightarrow> True
           | Returns ds \<Rightarrow>
               (case ds of
                  [] \<Rightarrow> False
                | gpu # others \<Rightarrow>
                    is_unexpected (getCurrentUsage gpu) \<or>
                    is_unexpected (getCurrentTemperature gpu) \<or>
                    is_unexpected (getCurrentPower gpu) \<or>
                    (is_unsupported (getCurrentPower gpu) \<and>
                     is_unexpected (getCurrentPowerValue gpu)))))"

text \<open>
  The state after \<open>n\<close> ticks holds \<open>n\<close> rows, and row \<open>i\<close> holds what tick \<open>i\<close> read:
  the CPU value and the triple of the adapter, whose diagnostics and whose status line
  are in the output.
\<close>

definition rows_from :: "bool \<Rightarrow> (nat \<Rightarrow> tick_env) \<Rightarrow> nat \<Rightarrow> monitor_state \<Rightarrow> bool" where
  "rows_from a env n s \<longleftrightarrow>
     length (data s) = n \<and>
     (\<forall>i<n. cpu_util (data s ! i) = cpu_percent (env i) \<and>
            (gpu_util (data s ! i), gpu_temp (data s ! i), gpu_power (data s ! i)) =
              fst (get_amd_gpu_stats a (pyadl (env i))) \<and>
            set (snd (get_amd_gpu_stats a (pyadl (env i)))) \<subseteq> set (out s) \<and>
            StatusLine (cpu_percent (env i)) (or_NA (gpu_util (data s ! i)))
              (or_NA (gpu_temp (data s ! i))) (power_display (gpu_power (data s ! i)))
              \<in> set (out s))"

text \<open>The messages that \<open>monitor_system\<close> and the adapter print.\<close>

definition monitor_msg :: "msg \<Rightarrow> bool" where
  "monitor_msg m =
     (case m of
        ErrorReadingGpu x \<Rightarrow> True
      | StartMonitoring d \<Rightarrow> True
      | GpuDetected b \<Rightarrow> True
      | StatusLine c u t p \<Rightarrow> True
      | _ \<Rightarrow> False)"

text \<open>
  Two runs whose environments differ on tick \<open>j\<close> only, and not in how long that tick
  takes: same clock, same number of rows, same rows but for row \<open>j\<close>.
\<close>

definition same_but :: "nat \<Rightarrow> nat \<Rightarrow> monitor_state \<Rightarrow> monitor_state \<Rightarrow> bool" where
  "same_but j n s s' \<longleftrightarrow>
     now s' = now s \<and> length (data s) = n \<and> length (data s') = n \<and>
     (\<forall>i<n. i \<noteq> j \<longrightarrow> data s' ! i = data s ! i)"

text \<open>
  A run in which no GPU read takes time and the interval is 0.1 seconds at least: after
  \<open>n\<close> ticks the clock has moved by \<open>n\<close> intervals, row \<open>i\<close> was stamped 0.1 seconds
  into tick \<open>i\<close>, and the last tick began before the end time.
\<close>

definition on_schedule ::
  "(real \<Rightarrow> tm) \<Rightarrow> real \<Rightarrow> real \<Rightarrow> real \<Rightarrow> nat \<Rightarrow> monitor_state \<Rightarrow> bool" where
  "on_schedule l t0 duration interval n s \<longleftrightarrow>
     now s = t0 + real n * interval \<and>
     map timestamp (data s) =
       map (\<lambda>i. strftime_HMS (l (t0 + 1 / 10 + real i * interval))) [0..<n] \<and>
     (n = 0 \<or> real (n - 1) * interval < duration)"

text \<open>
  The time one tick takes: the CPU sampling window, the GPU read and the sleep.
\<close>

definition tick_period :: "real \<Rightarrow> tick_env \<Rightarrow> real" where
  "tick_period interval e = 1 / 10 + max 0 (gpu_read_time e) + max 0 (interval - 1 / 10)"

text \<open>After \<open>n\<close> ticks the clock has moved by the periods of these ticks.\<close>

definition paced :: "(nat \<Rightarrow> tick_env) \<Rightarrow> real \<Rightarrow> real \<Rightarrow> nat \<Rightarrow> monitor_state \<Rightarrow> bool" where
  "paced env start interval n s \<longleftrightarrow>
     length (data s) = n \<and> now s = start + (\<Sum>k<n. tick_period interval (env k))"

text \<open>The last tick began before the end time.\<close>

definition last_tick_began_in_time ::
  "(nat \<Rightarrow> tick_env) \<Rightarrow> real \<Rightarrow> real \<Rightarrow> real \<Rightarrow> nat \<Rightarrow> monitor_state \<Rightarrow> bool" where
  "last_tick_began_in_time env start duration interval n s \<longleftrightarrow>
     length (data s) = n \<and>
     (if n = 0 then now s = start
      else now s < start + duration + tick_period interval (env (n - 1)))"

text \<open>
  The mean of a metric over the rows in which it is present, and what it means for the
  printed report to give that mean, or to say that the metric is unavailable when no
  row has it.
\<close>

definition present_mean :: "(sample \<Rightarrow> real option) \<Rightarrow> sample list \<Rightarrow> real" where
  "present_mean f d =
     sum_list (map (\<lambda>r. the (f r)) (filter (\<lambda>r. f r \<noteq> None) d)) /
     real (length (filter (\<lambda>r. f r \<noteq> None) d))"

definition reports ::
  "msg list \<Rightarrow> (real \<Rightarrow> msg) \<Rightarrow> msg \<Rightarrow> (sample \<Rightarrow> real option) \<Rightarrow> sample list \<Rightarrow> bool" where
  "reports lines average unavailable f d \<longleftrightarrow>
     (if \<forall>r \<in> set d. f r = None
      then unavailable \<in> set lines \<and> (\<forall>v. average v \<notin> set lines)
      else unavailable \<notin> set lines \<and> (\<forall>v. average v \<in> set lines \<longleftrightarrow> v = present_mean f d))"

text \<open>Eight digits, an underscore, six digits.\<close>

definition stamp_shaped :: "string \<Rightarrow> bool" where
  "stamp_shaped s \<longleftrightarrow>
     length s = 15 \<and> list_all is_digit (take 8 s) \<and> s ! 8 = CHR ''_'' \<and>
     list_all is_digit (drop 9 s)"

section \<open>Sample environments\<close>

text \<open>
  A clock that counts the seconds from local midnight of 1 January 2024 (good for the
  first 31 days), an RX 460 that offers the power reading in milliwatts only, and a few
  ways for the library to misbehave.
\<close>

definition clock_tm :: "real \<Rightarrow> tm" where
  "clock_tm t =
     (let n = nat \<lfloor>t\<rfloor>
      in \<lparr>tm_year = 2024, tm_mon = 1, tm_mday = 1 + n div 86400,
          tm_hour = n div 3600 mod 24, tm_min = n div 60 mod 60, tm_sec = n mod 60\<rparr>)"

definition rx460 :: adl_device where
  "rx460 =
     \<lparr>getCurrentUsage = Returns 37, getCurrentTemperature = Returns 52,
      getCurrentPower = Raises (AttributeError ''getCurrentPower''),
      getCurrentPowerValue = Returns 45000\<rparr>"

definition idle_gpu :: adl_device where
  "idle_gpu =
     \<lparr>getCurrentUsage = Returns 0, getCurrentTemperature = Returns 0,
      getCurrentPower = Returns 0,
      getCurrentPowerValue = Raises (AttributeError ''getCurrentPowerValue'')\<rparr>"

definition other_gpu :: adl_device where
  "other_gpu =
     \<lparr>getCurrentUsage = Returns 99, getCurrentTemperature = Returns 80,
      getCurrentPower = Returns 120, getCurrentPowerValue = Returns 120000\<rparr>"

definition no_sensors :: adl_device where
  "no_sensors =
     \<lparr>getCurrentUsage = Raises (AttributeError ''getCurrentUsage''),
      getCurrentTemperature = Raises (AttributeError ''getCurrentTemperature''),
      getCurrentPower = Raises (AttributeError ''getCurrentPower''),
      getCurrentPowerValue = Raises (AttributeError ''getCurrentPowerValue'')\<rparr>"

definition faulty_gpu :: adl_device where
  "faulty_gpu =
     \<lparr>getCurrentUsage = Returns 37,
      getCurrentTemperature = Raises (OtherException ''ADL_Overdrive5_Temperature_Get failed''),
      getCurrentPower = Returns 40, getCurrentPowerValue = Returns 40000\<rparr>"

definition broken_pyadl :: pyadl_module where
  "broken_pyadl = \<lparr>getInstance = Raises (OtherException ''Failed to initialize ADL'')\<rparr>"

definition broken_enumeration :: pyadl_module where
  "broken_enumeration =
     \<lparr>getInstance = Returns \<lparr>getDevices = Raises (OtherException ''Failed to get devices'')\<rparr>\<rparr>"

definition steady_env :: "nat \<Rightarrow> tick_env" where
  "steady_env k = \<lparr>cpu_percent = 25 / 2, pyadl = with_devices [rx460], gpu_read_time = 0\<rparr>"

definition fault_on_tick_5 :: "nat \<Rightarrow> tick_env" where
  "fault_on_tick_5 k =
     (if k = 4
      then \<lparr>cpu_percent = 25 / 2, pyadl = with_devices [faulty_gpu], gpu_read_time = 0\<rparr>
      else steady_env k)"

definition idle_env :: "nat \<Rightarrow> tick_env" where
  "idle_env k = \<lparr>cpu_percent = 3, pyadl = with_devices [idle_gpu], gpu_read_time = 0\<rparr>"

definition blind_env :: "nat \<Rightarrow> tick_env" where
  "blind_env k = \<lparr>cpu_percent = 3, pyadl = with_devices [no_sensors], gpu_read_time = 0\<rparr>"


section \<open>The adapter\<close>

lemma try_attr_Inl:
  "try_attr r = Inl e \<longleftrightarrow> (\<exists>m. r = Raises (OtherException m) \<and> e = OtherException m)"
  by (auto simp: try_attr_def split: outcome.splits exn.splits)

lemma try_attr_unexpected: "is_unexpected r \<longleftrightarrow> (\<exists>e. try_attr r = Inl e)"
  by (auto simp: try_attr_def is_unexpected_def split: outcome.splits exn.splits)

lemma power_reading_unexpected:
  "is_unexpected (getCurrentPower gpu) \<or>
   (is_unsupported (getCurrentPower gpu) \<and> is_unexpected (getCurrentPowerValue gpu))
   \<longleftrightarrow> (\<exists>e. power_reading gpu = Inl e)"
  by (auto simp: power_reading_def is_unexpected_def is_unsupported_def
      split: outcome.splits exn.splits)

lemma read_gpu_fails: "fails_unexpectedly lib \<longleftrightarrow> (\<exists>e. read_gpu lib = Inl e)"
proof (cases "getInstance lib")
  case (Raises e)
  then show ?thesis
    by (simp add: fails_unexpectedly_def read_gpu_def)
next
  case (Returns mgr)
  note init = this
  show ?thesis
  proof (cases "getDevices mgr")
    case (Raises e)
    with init show ?thesis
      by (simp add: fails_unexpectedly_def read_gpu_def)
  next
    case (Returns ds)
    note devs = this
    show ?thesis
    proof (cases ds)
      case Nil
      with init devs show ?thesis
        by (simp add: fails_unexpectedly_def read_gpu_def)
    next
      case (Cons gpu others)
      have "fails_unexpectedly lib \<longleftrightarrow>
            (\<exists>e. try_attr (getCurrentUsage gpu) = Inl e) \<or>
            (\<exists>e. try_attr (getCurrentTemperature gpu) = Inl e) \<or>
            (\<exists>e. power_reading gpu = Inl e)"
        using init devs Cons
        by (simp add: fails_unexpectedly_def try_attr_unexpected
            power_reading_unexpected [symmetric] disj_assoc)
      also have "\<dots> \<longleftrightarrow> (\<exists>e. read_gpu lib = Inl e)"
        using init devs Cons
        by (auto simp: read_gpu_def split: sum.splits)
      finally show ?thesis .
    qed
  qed
qed

lemma degraded_iff:
  "fails_unexpectedly lib \<longleftrightarrow>
   (\<exists>m. get_amd_gpu_stats True lib = ((None, None, None), [ErrorReadingGpu m]))"
  by (auto simp: read_gpu_fails get_amd_gpu_stats_def split: sum.splits)

lemma quiet_iff:
  "\<not> fails_unexpectedly lib \<longleftrightarrow> snd (get_amd_gpu_stats True lib) = []"
  by (auto simp: read_gpu_fails get_amd_gpu_stats_def split: sum.splits)


section \<open>One tick\<close>

lemma now_tick_body:
  "now (tick_body a l e s) = now s + 1 / 10 + max 0 (gpu_read_time e)"
  by (simp add: tick_body_def Let_def split: prod.splits)

lemma now_tick:
  "now (tick a l interval e s) =
   now s + 1 / 10 + max 0 (gpu_read_time e) + max 0 (interval - 1 / 10)"
  by (simp add: tick_def sleep_def now_tick_body)

lemma data_tick:
  "data (tick a l interval e s) =
   data s @ [\<lparr>timestamp = strftime_HMS (l (now s + 1 / 10 + max 0 (gpu_read_time e))),
              cpu_util = cpu_percent e,
              gpu_util = fst (fst (get_amd_gpu_stats a (pyadl e))),
              gpu_temp = fst (snd (fst (get_amd_gpu_stats a (pyadl e)))),
              gpu_power = snd (snd (fst (get_amd_gpu_stats a (pyadl e))))\<rparr>]"
  by (simp add: tick_def sleep_def tick_body_def Let_def split: prod.splits)

lemma out_tick:
  "out (tick a l interval e s) =
   out s @ snd (get_amd_gpu_stats a (pyadl e)) @
   [StatusLine (cpu_percent e)
      (or_NA (fst (fst (get_amd_gpu_stats a (pyadl e)))))
      (or_NA (fst (snd (fst (get_amd_gpu_stats a (pyadl e))))))
      (power_display (snd (snd (fst (get_amd_gpu_stats a (pyadl e))))))]"
  by (simp add: tick_def sleep_def tick_body_def Let_def split: prod.splits)

lemma diagnostics_are_errors:
  "m \<in> set (snd (get_amd_gpu_stats a lib)) \<Longrightarrow> monitor_msg m"
  by (auto simp: get_amd_gpu_stats_def monitor_msg_def split: if_splits sum.splits)

section \<open>The loop\<close>

lemma monitor_loop_step:
  "now s < end_time \<Longrightarrow>
   monitor_loop a l env end_time interval k s =
   monitor_loop a l env end_time interval (Suc k) (tick a l interval (env k) s)"
  by (subst monitor_loop.simps) simp

lemma monitor_loop_stop:
  "\<not> now s < end_time \<Longrightarrow> monitor_loop a l env end_time interval k s = s"
  by (subst monitor_loop.simps) simp

text \<open>
  The proof rule of the loop: what holds of the starting state and is kept by every tick
  that the loop runs holds of the state the loop returns, and the clock of that state has
  reached the end time.
\<close>

lemma monitor_loop_rule:
  assumes "P k s"
    and "\<And>j t. P j t \<Longrightarrow> now t < end_time \<Longrightarrow> P (Suc j) (tick a l interval (env j) t)"
  shows "\<exists>n. P n (monitor_loop a l env end_time interval k s) \<and>
             end_time \<le> now (monitor_loop a l env end_time interval k s)"
  using assms
proof (induction a l env end_time interval k s rule: monitor_loop.induct)
  case (1 a l env end_time interval k s)
  show ?case
  proof (cases "now s < end_time")
    case True
    have "P (Suc k) (tick a l interval (env k) s)"
      using "1.prems" True by blast
    then have "\<exists>n. P n (monitor_loop a l env end_time interval (Suc k)
                          (tick a l interval (env k) s)) \<and>
                 end_time \<le> now (monitor_loop a l env end_time interval (Suc k)
                                   (tick a l interval (env k) s))"
      using "1.IH" [OF True] "1.prems"(2) by blast
    then show ?thesis
      by (simp add: monitor_loop_step [OF True])
  next
    case False
    with "1.prems" show ?thesis
      by (auto simp: monitor_loop_stop)
  qed
qed

lemma monitor_system_rule:
  assumes "P 0 \<lparr>now = start, data = [], out = [StartMonitoring duration, GpuDetected a]\<rparr>"
    and "\<And>j t. P j t \<Longrightarrow> now t < start + duration \<Longrightarrow> P (Suc j) (tick a l interval (env j) t)"
  shows "\<exists>n. P n (monitor_system a l env start duration interval) \<and>
             start + duration \<le> now (monitor_system a l env start duration interval)"
  unfolding monitor_system_def Let_def
  using assms by (rule monitor_loop_rule)

text \<open>The same for two runs that read the same clock at every test of the loop.\<close>

lemma monitor_loop_rule2:
  assumes "R k s s'"
    and "\<And>j t t'. R j t t' \<Longrightarrow> now t' = now t"
    and "\<And>j t t'. R j t t' \<Longrightarrow> now t < end_time \<Longrightarrow>
           R (Suc j) (tick a l interval (env j) t) (tick a' l' interval' (env' j) t')"
  shows "\<exists>n. R n (monitor_loop a l env end_time interval k s)
                 (monitor_loop a' l' env' end_time interval' k s')"
  using assms
proof (induction a l env end_time interval k s arbitrary: s' rule: monitor_loop.induct)
  case (1 a l env end_time interval k s)
  have clock: "now s' = now s"
    using "1.prems"(1,2) by blast
  show ?case
  proof (cases "now s < end_time")
    case True
    have "R (Suc k) (tick a l interval (env k) s) (tick a' l' interval' (env' k) s')"
      using "1.prems" True by blast
    then have "\<exists>n. R n (monitor_loop a l env end_time interval (Suc k)
                          (tick a l interval (env k) s))
                       (monitor_loop a' l' env' end_time interval' (Suc k)
                          (tick a' l' interval' (env' k) s'))"
      using "1.IH" [OF True] "1.prems"(2,3) by blast
    then show ?thesis
      using True clock by (simp add: monitor_loop_step)
  next
    case False
    with "1.prems"(1) clock show ?thesis
      by (auto simp: monitor_loop_stop)
  qed
qed

lemma monitor_system_rule2:
  assumes "R 0 \<lparr>now = start, data = [], out = [StartMonitoring duration, GpuDetected a]\<rparr>
               \<lparr>now = start, data = [], out = [StartMonitoring duration, GpuDetected a']\<rparr>"
    and "\<And>j t t'. R j t t' \<Longrightarrow> now t' = now t"
    and "\<And>j t t'. R j t t' \<Longrightarrow> now t < start + duration \<Longrightarrow>
           R (Suc j) (tick a l interval (env j) t) (tick a' l' interval' (env' j) t')"
  shows "\<exists>n. R n (monitor_system a l env start duration interval)
                 (monitor_system a' l' env' start duration interval')"
  unfolding monitor_system_def Let_def
  using assms by (rule monitor_loop_rule2)

subsection \<open>Every row comes from its own tick\<close>

lemma rows_from_tick:
  assumes "rows_from a env n s"
  shows "rows_from a env (Suc n) (tick a l interval (env n) s)"
  using assms
  by (auto simp: rows_from_def data_tick out_tick nth_append less_Suc_eq)

lemma rows_from_monitor_system:
  "rows_from a env (length (data (monitor_system a l env start duration interval)))
     (monitor_system a l env start duration interval)"
proof -
  have "\<exists>n. rows_from a env n (monitor_system a l env start duration interval) \<and>
             start + duration \<le> now (monitor_system a l env start duration interval)"
    by (rule monitor_system_rule) (simp_all add: rows_from_def rows_from_tick [unfolded rows_from_def])
  then show ?thesis
    by (auto simp: rows_from_def)
qed

lemma monitor_system_runs_out:
  "start + duration \<le> now (monitor_system a l env start duration interval)"
  using monitor_system_rule [of "\<lambda>n s. True" start duration a l interval env] by simp

subsection \<open>What the loop prints\<close>

lemma monitor_system_prints:
  "\<forall>m \<in> set (out (monitor_system a l env start duration interval)). monitor_msg m"
proof -
  let ?P = "\<lambda>(n::nat) s. \<forall>m \<in> set (out s). monitor_msg m"
  have init: "?P 0 \<lparr>now = start, data = [], out = [StartMonitoring duration, GpuDetected a]\<rparr>"
    by (simp add: monitor_msg_def)
  have step: "?P (Suc j) (tick a l interval (env j) t)" if "?P j t" for j t
    using that by (auto simp: out_tick dest: diagnostics_are_errors) (simp add: monitor_msg_def)
  from monitor_system_rule [where P = ?P and a = a and l = l and env = env and start = start
      and duration = duration and interval = interval, OF init step]
  show ?thesis
    by blast
qed

subsection \<open>A positive duration gives a row\<close>

lemma monitor_system_nonempty:
  assumes "0 < duration"
  shows "data (monitor_system a l env start duration interval) \<noteq> []"
proof -
  let ?s0 = "\<lparr>now = start, data = [], out = [StartMonitoring duration, GpuDetected a]\<rparr>"
  let ?P = "\<lambda>(n::nat) s. data s \<noteq> []"
  have first: "monitor_system a l env start duration interval =
      monitor_loop a l env (start + duration) interval (Suc 0) (tick a l interval (env 0) ?s0)"
    using assms by (simp add: monitor_system_def monitor_loop_step)
  have init: "?P (Suc 0) (tick a l interval (env 0) ?s0)"
    by (simp add: data_tick)
  have step: "?P (Suc j) (tick a l interval (env j) t)" if "?P j t" for j t
    by (simp add: data_tick)
  from monitor_loop_rule [where P = ?P and a = a and l = l and env = env
      and end_time = "start + duration" and interval = interval, OF init step] first
  show ?thesis
    by auto
qed



subsection \<open>A run on schedule\<close>

lemma on_schedule_length: "on_schedule l start duration interval n s \<Longrightarrow> length (data s) = n"
proof -
  assume "on_schedule l start duration interval n s"
  then have "length (map timestamp (data s)) =
      length (map (\<lambda>i. strftime_HMS (l (start + 1 / 10 + real i * interval))) [0..<n])"
    by (simp only: on_schedule_def)
  then show ?thesis by simp
qed

lemma on_schedule_tick:
  assumes "on_schedule l start duration interval n s"
    and "now s < start + duration"
    and "gpu_read_time e \<le> 0"
    and "1 / 10 \<le> interval"
  shows "on_schedule l start duration interval (Suc n) (tick a l interval e s)"
proof -
  from assms(1) have clock: "now s = start + real n * interval"
    and stamps: "map timestamp (data s) =
       map (\<lambda>i. strftime_HMS (l (start + 1 / 10 + real i * interval))) [0..<n]"
    by (simp_all add: on_schedule_def)
  from assms(3) have g: "max 0 (gpu_read_time e) = 0"
    by simp
  from assms(4) have p: "max 0 (interval - 1 / 10) = interval - 1 / 10"
    by simp
  have "now (tick a l interval e s) = start + real (Suc n) * interval"
    by (simp add: now_tick g p clock algebra_simps)
  moreover have at: "now s + 1 / 10 + max 0 (gpu_read_time e) = start + 1 / 10 + real n * interval"
    by (simp add: g clock)
  have "map timestamp (data (tick a l interval e s)) =
       map (\<lambda>i. strftime_HMS (l (start + 1 / 10 + real i * interval))) [0..<Suc n]"
    by (simp only: data_tick at) (simp add: stamps)
  moreover from assms(2) clock have "real (Suc n - 1) * interval < duration"
    by simp
  ultimately show ?thesis
    by (simp add: on_schedule_def)
qed

lemma on_schedule_run:
  assumes "\<forall>k. gpu_read_time (env k) \<le> 0" and "1 / 10 \<le> interval"
  shows "\<exists>n. on_schedule l start duration interval n
               (monitor_system a l env start duration interval) \<and>
             start + duration \<le> now (monitor_system a l env start duration interval)"
proof (rule monitor_system_rule [where P = "on_schedule l start duration interval"])
  show "on_schedule l start duration interval 0
          \<lparr>now = start, data = [], out = [StartMonitoring duration, GpuDetected a]\<rparr>"
    by (simp add: on_schedule_def)
next
  fix j t
  assume "on_schedule l start duration interval j t" and "now t < start + duration"
  with assms show "on_schedule l start duration interval (Suc j) (tick a l interval (env j) t)"
    by (simp add: on_schedule_tick)
qed

text \<open>the number of ticks of a run on schedule\<close>

lemma on_schedule_count:
  assumes "\<forall>k. gpu_read_time (env k) \<le> 0" and "1 / 10 \<le> interval" and "0 < duration"
  shows "\<exists>n. 0 < n \<and> real (n - 1) * interval < duration \<and> duration \<le> real n * interval \<and>
      length (data (monitor_system a l env start duration interval)) = n \<and>
      now (monitor_system a l env start duration interval) = start + real n * interval \<and>
      map timestamp (data (monitor_system a l env start duration interval)) =
        map (\<lambda>i. strftime_HMS (l (start + 1 / 10 + real i * interval))) [0..<n]"
proof -
  let ?r = "monitor_system a l env start duration interval"
  from on_schedule_run [OF assms(1,2)] obtain n where
    sched: "on_schedule l start duration interval n ?r" and stop: "start + duration \<le> now ?r"
    by blast
  from sched have clock: "now ?r = start + real n * interval"
    by (simp add: on_schedule_def)
  with stop have upper: "duration \<le> real n * interval"
    by simp
  have "n \<noteq> 0"
  proof
    assume "n = 0"
    with upper assms(3) show False by simp
  qed
  with sched have lower: "real (n - 1) * interval < duration"
    by (simp add: on_schedule_def)
  from sched have len: "length (data ?r) = n"
    by (rule on_schedule_length)
  from sched have stamps: "map timestamp (data ?r) =
      map (\<lambda>i. strftime_HMS (l (start + 1 / 10 + real i * interval))) [0..<n]"
    by (simp add: on_schedule_def)
  from \<open>n \<noteq> 0\<close> have "0 < n"
    by simp
  with lower upper len clock stamps show ?thesis
    by blast
qed

lemma twenty_ticks:
  assumes "\<forall>k. gpu_read_time (env k) \<le> 0"
  shows "length (data (monitor_system a l env start 20 1)) = 20
    \<and> now (monitor_system a l env start 20 1) = start + 20
    \<and> map timestamp (data (monitor_system a l env start 20 1)) =
        map (\<lambda>i. strftime_HMS (l (start + 1 / 10 + real i))) [0..<20]"
proof -
  have "(1::real) / 10 \<le> 1" and "(0::real) < 20"
    by simp_all
  from on_schedule_count [OF assms this, of a l start] obtain n where
    n: "0 < n" "real (n - 1) * 1 < 20" "20 \<le> real n * 1"
    and r: "length (data (monitor_system a l env start 20 1)) = n"
      "now (monitor_system a l env start 20 1) = start + real n * 1"
      "map timestamp (data (monitor_system a l env start 20 1)) =
        map (\<lambda>i. strftime_HMS (l (start + 1 / 10 + real i * 1))) [0..<n]"
    by blast
  from n have "n = 20"
    by simp
  with r show ?thesis
    by simp
qed

section \<open>Lower case\<close>

lemma lower_char_s: "lower_char c = CHR ''s'' \<longleftrightarrow> c = CHR ''s'' \<or> c = CHR ''S''"
proof -
  define n where "n = (of_char c :: nat)"
  have c: "c = char_of n"
    by (simp add: n_def)
  have lt: "n < 256"
    by (simp add: n_def)
  have s: "c = CHR ''s'' \<longleftrightarrow> n = 115"
    using lt by (simp add: c char_of_eq_iff take_bit_eq_mod)
  have S: "c = CHR ''S'' \<longleftrightarrow> n = 83"
    using lt by (simp add: c char_of_eq_iff take_bit_eq_mod)
  show ?thesis
  proof (cases "(65 \<le> n \<and> n \<le> 90) \<or> (192 \<le> n \<and> n \<le> 222 \<and> n \<noteq> 215)")
    case True
    then have "lower_char c = char_of (n + 32)"
      by (auto simp: lower_char_def Let_def n_def)
    then have "lower_char c = CHR ''s'' \<longleftrightarrow> (n + 32) mod 256 = 115"
      by (simp add: char_of_eq_iff take_bit_eq_mod)
    also have "\<dots> \<longleftrightarrow> n = 83"
      using True lt by auto
    finally show ?thesis
      using True s S by auto
  next
    case False
    then have "lower_char c = c"
      by (auto simp: lower_char_def Let_def n_def)
    with False s S show ?thesis
      by auto
  qed
qed

lemma lower_s: "lower r = ''s'' \<longleftrightarrow> r = ''s'' \<or> r = ''S''"
proof -
  have "lower r = ''s'' \<longleftrightarrow> (\<exists>c. r = [c] \<and> lower_char c = CHR ''s'')"
    by (cases r) (auto simp: lower_def)
  then show ?thesis
    by (auto simp: lower_char_s)
qed



subsection \<open>The pace of the loop\<close>

lemma now_tick_period: "now (tick a l interval e s) = now s + tick_period interval e"
  by (simp add: now_tick tick_period_def)

lemma length_data_tick: "length (data (tick a l interval e s)) = Suc (length (data s))"
  by (simp add: data_tick)

lemma paced_run:
  "paced env start interval (length (data (monitor_system a l env start duration interval)))
     (monitor_system a l env start duration interval)"
proof -
  have "\<exists>n. paced env start interval n (monitor_system a l env start duration interval) \<and>
             start + duration \<le> now (monitor_system a l env start duration interval)"
  proof (rule monitor_system_rule [where P = "paced env start interval"])
    show "paced env start interval 0
            \<lparr>now = start, data = [], out = [StartMonitoring duration, GpuDetected a]\<rparr>"
      by (simp add: paced_def)
  next
    fix j t
    assume "paced env start interval j t"
    then show "paced env start interval (Suc j) (tick a l interval (env j) t)"
      by (simp add: paced_def now_tick_period length_data_tick)
  qed
  then show ?thesis
    by (auto simp: paced_def)
qed

lemma last_tick_run:
  "last_tick_began_in_time env start duration interval
     (length (data (monitor_system a l env start duration interval)))
     (monitor_system a l env start duration interval)"
proof -
  have "\<exists>n. last_tick_began_in_time env start duration interval n
               (monitor_system a l env start duration interval) \<and>
             start + duration \<le> now (monitor_system a l env start duration interval)"
  proof (rule monitor_system_rule
      [where P = "last_tick_began_in_time env start duration interval"])
    show "last_tick_began_in_time env start duration interval 0
            \<lparr>now = start, data = [], out = [StartMonitoring duration, GpuDetected a]\<rparr>"
      by (simp add: last_tick_began_in_time_def)
  next
    fix j t
    assume "last_tick_began_in_time env start duration interval j t"
      and "now t < start + duration"
    then show "last_tick_began_in_time env start duration interval (Suc j)
                 (tick a l interval (env j) t)"
      by (simp add: last_tick_began_in_time_def now_tick_period length_data_tick)
  qed
  then show ?thesis
    by (auto simp: last_tick_began_in_time_def)
qed

section \<open>The report\<close>

lemma isnull_all_map: "isnull_all (map f d) \<longleftrightarrow> (\<forall>r \<in> set d. f r = None)"
  by (simp add: isnull_all_def list_all_iff)

lemma mean_map: "mean (map f d) = present_mean f d"
  by (simp add: mean_def dropna_def present_mean_def filter_map comp_def)

lemma present_mean_const:
  assumes "\<forall>r \<in> set d. f r = Some c" and "d \<noteq> []"
  shows "present_mean f d = c"
proof -
  from assms(1) have all: "filter (\<lambda>r. f r \<noteq> None) d = d"
    by (simp add: filter_id_conv)
  from assms(1) have "map (\<lambda>r. the (f r)) d = replicate (length d) c"
    by (simp add: map_replicate_const [symmetric])
  then have "sum_list (map (\<lambda>r. the (f r)) d) = real (length d) * c"
    by (simp add: sum_list_replicate)
  with assms(2) show ?thesis
    unfolding present_mean_def all by simp
qed

lemma report_lines:
  "report True df =
     [FinalResults, CpuAverage (present_mean (\<lambda>r. Some (cpu_util r)) (rows df)),
      if \<forall>r \<in> set (rows df). gpu_util r = None then GpuUtilUnavailable
      else GpuUtilAverage (present_mean gpu_util (rows df)),
      if \<forall>r \<in> set (rows df). gpu_temp r = None then GpuTempUnavailable
      else GpuTempAverage (present_mean gpu_temp (rows df)),
      if \<forall>r \<in> set (rows df). gpu_power r = None then GpuPowerUnavailable
      else GpuPowerAverage (present_mean gpu_power (rows df))]"
  by (simp add: report_def isnull_all_map mean_map)

section \<open>A run of main with everything installed\<close>

lemma main_run:
  "main True True l env start response response_time =
     (let s = monitor_system True l env start 20 1;
          df = DataFrame (data s);
          shown = [Title, Version, CheckingDependencies] @ out s @ report True df @ [SavePrompt];
          filename = ''rx460_monitor_'' @
             strftime_Ymd_HMS (l (now s + max 0 response_time)) @ ''.csv''
      in if lower response = ''s''
         then \<lparr>printed = shown @ [DataSaved filename], collection = Some df,
               saved = Some (filename, to_csv df), uncaught = None\<rparr>
         else \<lparr>printed = shown, collection = Some df, saved = None, uncaught = None\<rparr>)"
proof -
  have "data (monitor_system True l env start 20 1) \<noteq> []"
    by (rule monitor_system_nonempty) simp
  then have "columns (DataFrame (data (monitor_system True l env start 20 1))) \<noteq> []"
    by (simp add: DataFrame_def)
  then show ?thesis
    by (simp add: main_def Let_def)
qed

lemma printed_main:
  "set (printed (main True True l env start response response_time)) =
     {Title, Version, CheckingDependencies, SavePrompt} \<union>
     set (out (monitor_system True l env start 20 1)) \<union>
     set (report True (DataFrame (data (monitor_system True l env start 20 1)))) \<union>
     (if lower response = ''s''
      then {DataSaved (''rx460_monitor_'' @
              strftime_Ymd_HMS (l (now (monitor_system True l env start 20 1)
                 + max 0 response_time)) @ ''.csv'')}
      else {})"
  by (auto simp: main_run Let_def)

lemma reports_main:
  assumes "\<not> monitor_msg unavailable" and "\<And>v. \<not> monitor_msg (average v)"
    and "unavailable \<notin> {Title, Version, CheckingDependencies, SavePrompt}"
    and "\<And>v. average v \<notin> {Title, Version, CheckingDependencies, SavePrompt}"
    and "\<And>v x. average v \<noteq> DataSaved x" and "\<And>x. unavailable \<noteq> DataSaved x"
    and "unavailable \<in> set (report True (DataFrame d)) \<longleftrightarrow> (\<forall>r \<in> set d. f r = None)"
    and "\<And>v. average v \<in> set (report True (DataFrame d)) \<longleftrightarrow>
           (\<not> (\<forall>r \<in> set d. f r = None) \<and> v = present_mean f d)"
    and "d = data (monitor_system True l env start 20 1)"
  shows "reports (printed (main True True l env start response response_time))
           average unavailable f d"
proof -
  let ?out = "out (monitor_system True l env start 20 1)"
  have quiet: "m \<notin> set ?out" if "\<not> monitor_msg m" for m
    using that monitor_system_prints [of True l env start 20 1] by blast
  have u: "unavailable \<in> set (printed (main True True l env start response response_time))
      \<longleftrightarrow> (\<forall>r \<in> set d. f r = None)"
    using assms(1,3,6,7) quiet [of unavailable]
    by (auto simp: printed_main assms(9) [symmetric])
  have a: "average v \<in> set (printed (main True True l env start response response_time))
      \<longleftrightarrow> (\<not> (\<forall>r \<in> set d. f r = None) \<and> v = present_mean f d)" for v
    using assms(2,4,5,8) quiet [of "average v"]
    by (auto simp: printed_main assms(9) [symmetric])
  show ?thesis
    unfolding reports_def using u a by auto
qed



section \<open>Time formats\<close>

lemma digit_char_is_digit: "d < 10 \<Longrightarrow> is_digit (digit_char d)"
proof -
  assume "d < 10"
  then have "d < length ''0123456789''"
    by simp
  then have "''0123456789'' ! d \<in> set ''0123456789''"
    by (rule nth_mem)
  then show ?thesis
    by (simp only: is_digit_def digit_char_def)
qed

lemma dec_digit: "n < 10 \<Longrightarrow> dec n = [digit_char n]"
  by (subst dec.simps) simp

lemma dec_more: "10 \<le> n \<Longrightarrow> dec n = dec (n div 10) @ [digit_char (n mod 10)]"
  by (subst dec.simps) simp

lemma zpad_two:
  assumes "n < 100"
  shows "zpad 2 (dec n) = [digit_char (n div 10), digit_char (n mod 10)]"
proof (cases "n < 10")
  case True
  then show ?thesis
    by (simp add: dec_digit zpad_def digit_char_def)
next
  case False
  with assms have "n div 10 < 10" and "10 \<le> n"
    by simp_all
  then show ?thesis
    by (simp add: dec_more dec_digit zpad_def)
qed

lemma zpad_four:
  assumes "1000 \<le> n" and "n \<le> 9999"
  shows "zpad 4 (dec n) =
     [digit_char (n div 1000), digit_char (n div 100 mod 10), digit_char (n div 10 mod 10),
      digit_char (n mod 10)]"
proof -
  have e: "n div 10 div 10 = n div 100" and f: "n div 100 div 10 = n div 1000"
    by (simp_all add: div_mult2_eq [symmetric])
  from assms have a: "10 \<le> n" and b: "10 \<le> n div 10" and c: "10 \<le> n div 100"
    and d: "n div 1000 < 10"
    by simp_all
  have 1: "dec n = dec (n div 10) @ [digit_char (n mod 10)]"
    using a by (rule dec_more)
  have 2: "dec (n div 10) = dec (n div 100) @ [digit_char (n div 10 mod 10)]"
    using dec_more [OF b] by (simp only: e)
  have 3: "dec (n div 100) = dec (n div 1000) @ [digit_char (n div 100 mod 10)]"
    using dec_more [OF c] by (simp only: f)
  have 4: "dec (n div 1000) = [digit_char (n div 1000)]"
    using d by (rule dec_digit)
  show ?thesis
    unfolding 1 2 3 4 by (simp add: zpad_def)
qed

lemma strftime_Ymd_HMS_shape:
  assumes "calendar_tm t"
  shows "stamp_shaped (strftime_Ymd_HMS t)"
proof -
  from assms have y: "1000 \<le> tm_year t" "tm_year t \<le> 9999"
    and small: "tm_mon t < 100" "tm_mday t < 100" "tm_hour t < 100" "tm_min t < 100"
      "tm_sec t < 100"
    by (simp_all add: calendar_tm_def)
  have digit: "is_digit (digit_char (n div 10 mod 10))" "is_digit (digit_char (n mod 10))" for n
    by (simp_all add: digit_char_is_digit)
  have lead: "is_digit (digit_char (n div 10))" if "n < 100" for n
    using that by (simp add: digit_char_is_digit)
  have "is_digit (digit_char (tm_year t div 1000))" "is_digit (digit_char (tm_year t div 100 mod 10))"
    using y by (simp_all add: digit_char_is_digit)
  with small show ?thesis
    by (simp add: stamp_shaped_def strftime_Ymd_HMS_def zpad_two zpad_four [OF y] digit lead)
qed

lemma to_csv_header:
  "d \<noteq> [] \<Longrightarrow>
   join_commas (header (to_csv (DataFrame d))) = ''timestamp,cpu_util,gpu_util,gpu_temp,gpu_power''"
  by (simp add: to_csv_def DataFrame_def)

lemma to_csv_body: "body (to_csv (DataFrame d)) = map csv_row d"
  by (simp add: to_csv_def DataFrame_def)



section \<open>The sample environments at work\<close>

lemmas sample_device_defs =
  with_devices_def rx460_def idle_gpu_def other_gpu_def no_sensors_def faulty_gpu_def
  broken_pyadl_def broken_enumeration_def

lemmas adapter_defs =
  get_amd_gpu_stats_def read_gpu_def try_attr_def power_reading_def

lemma steady_reading:
  "get_amd_gpu_stats True (pyadl (steady_env k)) = ((Some 37, Some 52, Some 45), [])"
  by (simp add: steady_env_def adapter_defs sample_device_defs)

lemma faulty_reading:
  "get_amd_gpu_stats True (pyadl (fault_on_tick_5 4)) =
     ((None, None, None), [ErrorReadingGpu ''ADL_Overdrive5_Temperature_Get failed''])"
  by (simp add: fault_on_tick_5_def adapter_defs sample_device_defs)

lemma idle_reading:
  "get_amd_gpu_stats True (pyadl (idle_env k)) = ((Some 0, Some 0, Some 0), [])"
  by (simp add: idle_env_def adapter_defs sample_device_defs)

lemma blind_reading:
  "get_amd_gpu_stats True (pyadl (blind_env k)) = ((None, None, None), [])"
  by (simp add: blind_env_def adapter_defs sample_device_defs)

lemma sample_envs_take_no_time:
  "\<forall>k. gpu_read_time (steady_env k) \<le> 0" "\<forall>k. gpu_read_time (fault_on_tick_5 k) \<le> 0"
  "\<forall>k. gpu_read_time (idle_env k) \<le> 0" "\<forall>k. gpu_read_time (blind_env k) \<le> 0"
  by (simp_all add: steady_env_def fault_on_tick_5_def idle_env_def blind_env_def)

lemma row_of_run:
  assumes "i < length (data (monitor_system a l env start duration interval))"
  shows "(gpu_util (data (monitor_system a l env start duration interval) ! i),
          gpu_temp (data (monitor_system a l env start duration interval) ! i),
          gpu_power (data (monitor_system a l env start duration interval) ! i)) =
         fst (get_amd_gpu_stats a (pyadl (env i)))"
  using rows_from_monitor_system [of a env l start duration interval] assms
  by (simp add: rows_from_def)

lemma present_mean_same:
  assumes "\<forall>r \<in> set d. f r = None \<or> f r = Some c" and "\<exists>r \<in> set d. f r \<noteq> None"
  shows "present_mean f d = c"
proof -
  define p where "p = filter (\<lambda>r. f r \<noteq> None) d"
  from assms(1) have "\<forall>r \<in> set p. the (f r) = c"
    by (auto simp: p_def)
  then have "map (\<lambda>r. the (f r)) p = replicate (length p) c"
    by (simp add: map_replicate_const [symmetric])
  then have sum: "sum_list (map (\<lambda>r. the (f r)) p) = real (length p) * c"
    by (simp add: sum_list_replicate)
  from assms(2) have "p \<noteq> []"
    by (auto simp: p_def filter_empty_conv)
  with sum show ?thesis
    unfolding present_mean_def p_def [symmetric] by simp
qed

section \<open>The claims\<close>

text \<open>
  C1, as amended. When the library is absent (the flag is false), when the enumeration
  returns no device, and when the initialisation or the enumeration raises, the call
  returns \<open>(None, None, None)\<close> to its caller. It prints a diagnostic, the text of the
  exception, in the last case only; in the first two it prints nothing.
\<close>

theorem no_library_no_device_or_failed_init:
  "(\<not> available \<longrightarrow>
      get_amd_gpu_stats available lib = ((None, None, None), []))
 \<and> (available \<and> getInstance lib = Returns mgr \<and> getDevices mgr = Returns [] \<longrightarrow>
      get_amd_gpu_stats available lib = ((None, None, None), []))
 \<and> (available \<and> getInstance lib = Raises e \<longrightarrow>
      get_amd_gpu_stats available lib = ((None, None, None), [ErrorReadingGpu (str_exn e)]))
 \<and> (available \<and> getInstance lib = Returns mgr \<and> getDevices mgr = Raises e \<longrightarrow>
      get_amd_gpu_stats available lib = ((None, None, None), [ErrorReadingGpu (str_exn e)]))"
  by (simp add: get_amd_gpu_stats_def read_gpu_def)

theorem no_library_no_device_or_failed_init_witness:
  "get_amd_gpu_stats False (with_devices [rx460]) = ((None, None, None), [])
 \<and> get_amd_gpu_stats True (with_devices []) = ((None, None, None), [])
 \<and> get_amd_gpu_stats True broken_pyadl =
      ((None, None, None), [ErrorReadingGpu ''Failed to initialize ADL''])
 \<and> get_amd_gpu_stats True broken_enumeration =
      ((None, None, None), [ErrorReadingGpu ''Failed to get devices''])"
  using no_library_no_device_or_failed_init
      [of False "with_devices [rx460]" "\<lparr>getDevices = Returns []\<rparr>" "OtherException []"]
    no_library_no_device_or_failed_init
      [of True "with_devices []" "\<lparr>getDevices = Returns []\<rparr>" "OtherException []"]
    no_library_no_device_or_failed_init
      [of True broken_pyadl "\<lparr>getDevices = Returns []\<rparr>"
          "OtherException ''Failed to initialize ADL''"]
    no_library_no_device_or_failed_init
      [of True broken_enumeration
          "\<lparr>getDevices = Raises (OtherException ''Failed to get devices'')\<rparr>"
          "OtherException ''Failed to get devices''"]
  by (simp add: sample_device_defs)

text \<open>
  C1 as it is written fails: with the library absent, and with no device enumerated, the
  call prints nothing.
\<close>

theorem silent_without_library_or_device:
  "snd (get_amd_gpu_stats False (with_devices [rx460])) = []
 \<and> snd (get_amd_gpu_stats True (with_devices [])) = []"
  by (simp add: get_amd_gpu_stats_def read_gpu_def with_devices_def)

text \<open>
  C2. When some call of the read fails unexpectedly, the adapter returns
  \<open>(None, None, None)\<close> and prints one diagnostic; otherwise it prints nothing. In a run of
  the loop in which the library fails on tick \<open>j\<close>, row \<open>j\<close> has its three GPU fields
  absent and the diagnostic is in the output; and the run is as long as the run of an
  environment that differs on that tick only (and not in the time the read takes), ends
  at the same time, and has the same rows but for row \<open>j\<close>. In any case every row holds
  what the adapter returned on its own tick.
\<close>

theorem unexpected_failure_is_absorbed:
  assumes "fails_unexpectedly (pyadl (env' j))"
    and "\<forall>k. k \<noteq> j \<longrightarrow> env' k = env k"
    and "gpu_read_time (env' j) = gpu_read_time (env j)"
  shows "(\<exists>m. get_amd_gpu_stats True (pyadl (env' j)) =
               ((None, None, None), [ErrorReadingGpu m]))
       \<and> (\<forall>lib. \<not> fails_unexpectedly lib \<longrightarrow> snd (get_amd_gpu_stats True lib) = [])
       \<and> length (data (monitor_system True l env' start duration interval)) =
         length (data (monitor_system True l env start duration interval))
       \<and> now (monitor_system True l env' start duration interval) =
         now (monitor_system True l env start duration interval)
       \<and> (\<forall>i < length (data (monitor_system True l env start duration interval)).
            i \<noteq> j \<longrightarrow>
            data (monitor_system True l env' start duration interval) ! i =
            data (monitor_system True l env start duration interval) ! i)
       \<and> (j < length (data (monitor_system True l env' start duration interval)) \<longrightarrow>
            gpu_util (data (monitor_system True l env' start duration interval) ! j) = None \<and>
            gpu_temp (data (monitor_system True l env' start duration interval) ! j) = None \<and>
            gpu_power (data (monitor_system True l env' start duration interval) ! j) = None \<and>
            (\<exists>m. ErrorReadingGpu m \<in>
                  set (out (monitor_system True l env' start duration interval))))
       \<and> (\<forall>i < length (data (monitor_system True l env' start duration interval)).
            (gpu_util (data (monitor_system True l env' start duration interval) ! i),
             gpu_temp (data (monitor_system True l env' start duration interval) ! i),
             gpu_power (data (monitor_system True l env' start duration interval) ! i)) =
            fst (get_amd_gpu_stats True (pyadl (env' i))))"
proof -
  let ?r = "monitor_system True l env start duration interval"
  let ?r' = "monitor_system True l env' start duration interval"
  from assms(1) obtain m where
    degraded: "get_amd_gpu_stats True (pyadl (env' j)) = ((None, None, None), [ErrorReadingGpu m])"
    using degraded_iff by blast
  have quiet: "\<forall>lib. \<not> fails_unexpectedly lib \<longrightarrow> snd (get_amd_gpu_stats True lib) = []"
    using quiet_iff by blast
  have init: "same_but j 0
      \<lparr>now = start, data = [], out = [StartMonitoring duration, GpuDetected True]\<rparr>
      \<lparr>now = start, data = [], out = [StartMonitoring duration, GpuDetected True]\<rparr>"
    by (simp add: same_but_def)
  have clock: "now t' = now t" if "same_but j n t t'" for n t t'
    using that by (simp add: same_but_def)
  have step: "same_but j (Suc n) (tick True l interval (env n) t)
                (tick True l interval (env' n) t')"
    if "same_but j n t t'" for n t t'
  proof (cases "n = j")
    case True
    with that assms(3) show ?thesis
      by (auto simp: same_but_def now_tick data_tick nth_append less_Suc_eq)
  next
    case False
    with assms(2) have "env' n = env n" by blast
    with that show ?thesis
      by (auto simp: same_but_def now_tick data_tick nth_append less_Suc_eq)
  qed
  have "\<exists>n. same_but j n ?r ?r'"
    by (rule monitor_system_rule2 [where R = "same_but j" and a = True and a' = True and l = l
          and l' = l and env = env and env' = env' and start = start and duration = duration
          and interval = interval and interval' = interval])
      (fact init, erule clock, erule step)
  then obtain n where same: "same_but j n ?r ?r'"
    by blast
  have rows: "rows_from True env' (length (data ?r')) ?r'"
    by (rule rows_from_monitor_system)
  have row_j: "gpu_util (data ?r' ! j) = None \<and> gpu_temp (data ?r' ! j) = None \<and>
               gpu_power (data ?r' ! j) = None \<and> (\<exists>m. ErrorReadingGpu m \<in> set (out ?r'))"
    if "j < length (data ?r')"
  proof -
    from rows that have
      "(gpu_util (data ?r' ! j), gpu_temp (data ?r' ! j), gpu_power (data ?r' ! j)) =
         fst (get_amd_gpu_stats True (pyadl (env' j)))"
      and "set (snd (get_amd_gpu_stats True (pyadl (env' j)))) \<subseteq> set (out ?r')"
      by (simp_all add: rows_from_def)
    with degraded show ?thesis
      by auto
  qed
  from same have "length (data ?r') = length (data ?r)" and "now ?r' = now ?r"
    and "\<forall>i < length (data ?r). i \<noteq> j \<longrightarrow> data ?r' ! i = data ?r ! i"
    by (simp_all add: same_but_def)
  moreover have "\<forall>i < length (data ?r').
      (gpu_util (data ?r' ! i), gpu_temp (data ?r' ! i), gpu_power (data ?r' ! i)) =
      fst (get_amd_gpu_stats True (pyadl (env' i)))"
    using rows by (simp add: rows_from_def)
  ultimately show ?thesis
    using degraded quiet row_j by blast
qed

text \<open>
  The scenario of the specification: the read fails on tick 5 of a run of 20 ticks. Row 5
  has no GPU value, and the rows before and after it are those of the run without the
  failure.
\<close>

theorem unexpected_failure_is_absorbed_witness:
  "fails_unexpectedly (pyadl (fault_on_tick_5 4))
 \<and> length (data (monitor_system True clock_tm fault_on_tick_5 0 20 1)) = 20
 \<and> length (data (monitor_system True clock_tm steady_env 0 20 1)) = 20
 \<and> gpu_util (data (monitor_system True clock_tm fault_on_tick_5 0 20 1) ! 4) = None
 \<and> gpu_temp (data (monitor_system True clock_tm fault_on_tick_5 0 20 1) ! 4) = None
 \<and> gpu_power (data (monitor_system True clock_tm fault_on_tick_5 0 20 1) ! 4) = None
 \<and> (\<exists>m. ErrorReadingGpu m \<in> set (out (monitor_system True clock_tm fault_on_tick_5 0 20 1)))
 \<and> take 4 (data (monitor_system True clock_tm fault_on_tick_5 0 20 1)) =
   take 4 (data (monitor_system True clock_tm steady_env 0 20 1))
 \<and> drop 5 (data (monitor_system True clock_tm fault_on_tick_5 0 20 1)) =
   drop 5 (data (monitor_system True clock_tm steady_env 0 20 1))"
proof -
  have fails: "fails_unexpectedly (pyadl (fault_on_tick_5 4))"
    by (simp add: fails_unexpectedly_def fault_on_tick_5_def sample_device_defs
        is_unexpected_def)
  have others: "\<forall>k. k \<noteq> 4 \<longrightarrow> fault_on_tick_5 k = steady_env k"
    by (simp add: fault_on_tick_5_def)
  have time: "gpu_read_time (fault_on_tick_5 4) = gpu_read_time (steady_env 4)"
    by (simp add: fault_on_tick_5_def steady_env_def)
  have len': "length (data (monitor_system True clock_tm fault_on_tick_5 0 20 1)) = 20"
    using twenty_ticks [OF sample_envs_take_no_time(2)] by blast
  have len: "length (data (monitor_system True clock_tm steady_env 0 20 1)) = 20"
    using twenty_ticks [OF sample_envs_take_no_time(1)] by blast
  note absorbed = unexpected_failure_is_absorbed [OF fails others time, of clock_tm 0 20 1]
  from absorbed len have same: "i < 20 \<Longrightarrow> i \<noteq> 4 \<Longrightarrow>
      data (monitor_system True clock_tm fault_on_tick_5 0 20 1) ! i =
      data (monitor_system True clock_tm steady_env 0 20 1) ! i" for i
    by simp
  have before: "take 4 (data (monitor_system True clock_tm fault_on_tick_5 0 20 1)) =
      take 4 (data (monitor_system True clock_tm steady_env 0 20 1))"
    by (rule nth_equalityI) (simp_all add: len len' same)
  have after: "drop 5 (data (monitor_system True clock_tm fault_on_tick_5 0 20 1)) =
      drop 5 (data (monitor_system True clock_tm steady_env 0 20 1))"
    by (rule nth_equalityI) (simp_all add: len len' same)
  from absorbed len' have "gpu_util (data (monitor_system True clock_tm fault_on_tick_5 0 20 1) ! 4) = None"
    "gpu_temp (data (monitor_system True clock_tm fault_on_tick_5 0 20 1) ! 4) = None"
    "gpu_power (data (monitor_system True clock_tm fault_on_tick_5 0 20 1) ! 4) = None"
    "\<exists>m. ErrorReadingGpu m \<in> set (out (monitor_system True clock_tm fault_on_tick_5 0 20 1))"
    by simp_all
  with fails len len' before after show ?thesis
    by blast
qed

text \<open>
  C3. With a first device whose utilisation and temperature readings return or are
  unsupported: the power is the direct reading in watts when there is one; when that
  reading is unsupported it is the reading in milliwatts over 1000 (45000 gives 45);
  when both are unsupported it is absent. Utilisation and temperature are the same in
  all cases, and nothing is printed.
\<close>

theorem power_two_tier:
  assumes "getInstance lib = Returns mgr"
    and "getDevices mgr = Returns (gpu # others)"
    and "try_attr (getCurrentUsage gpu) = Inr u"
    and "try_attr (getCurrentTemperature gpu) = Inr t"
  shows "(getCurrentPower gpu = Returns w \<longrightarrow>
            get_amd_gpu_stats True lib = ((u, t, Some w), []))
       \<and> (getCurrentPower gpu = Raises (AttributeError x) \<and>
          getCurrentPowerValue gpu = Returns mw \<longrightarrow>
            get_amd_gpu_stats True lib = ((u, t, Some (mw / 1000)), []))
       \<and> (getCurrentPower gpu = Raises (AttributeError x) \<and>
          getCurrentPowerValue gpu = Returns 45000 \<longrightarrow>
            get_amd_gpu_stats True lib = ((u, t, Some 45), []))
       \<and> (getCurrentPower gpu = Raises (AttributeError x) \<and>
          getCurrentPowerValue gpu = Raises (AttributeError y) \<longrightarrow>
            get_amd_gpu_stats True lib = ((u, t, None), []))"
  using assms by (simp add: get_amd_gpu_stats_def read_gpu_def power_reading_def)

theorem power_two_tier_witness:
  "get_amd_gpu_stats True (with_devices [other_gpu]) = ((Some 99, Some 80, Some 120), [])
 \<and> get_amd_gpu_stats True (with_devices [rx460]) = ((Some 37, Some 52, Some 45), [])
 \<and> get_amd_gpu_stats True (with_devices [no_sensors]) = ((None, None, None), [])"
  using power_two_tier
      [of "with_devices [other_gpu]" "\<lparr>getDevices = Returns [other_gpu]\<rparr>" other_gpu "[]"
          "Some 99" "Some 80" 120 "[]" 0 "[]"]
    power_two_tier
      [of "with_devices [rx460]" "\<lparr>getDevices = Returns [rx460]\<rparr>" rx460 "[]"
          "Some 37" "Some 52" 0 "''getCurrentPower''" 45000 "[]"]
    power_two_tier
      [of "with_devices [no_sensors]" "\<lparr>getDevices = Returns [no_sensors]\<rparr>" no_sensors "[]"
          None None 0 "''getCurrentPower''" 0 "''getCurrentPowerValue''"]
  by (simp add: sample_device_defs try_attr_def)



text \<open>
  C4. In a run of \<open>main\<close> with everything installed, for each of the three GPU metrics:
  when the metric is absent in every row of the collection, the report says that it is
  unavailable and prints no average of it (neither 0 nor any other number); otherwise it
  prints one average, the sum of the present values over their number, and does not say
  that the metric is unavailable.
\<close>

theorem gpu_average_over_present_rows:
  "reports (printed (main True True l env start response response_time))
     GpuUtilAverage GpuUtilUnavailable gpu_util (data (monitor_system True l env start 20 1))
 \<and> reports (printed (main True True l env start response response_time))
     GpuTempAverage GpuTempUnavailable gpu_temp (data (monitor_system True l env start 20 1))
 \<and> reports (printed (main True True l env start response response_time))
     GpuPowerAverage GpuPowerUnavailable gpu_power (data (monitor_system True l env start 20 1))
 \<and> collection (main True True l env start response response_time) =
     Some (DataFrame (data (monitor_system True l env start 20 1)))"
proof -
  let ?d = "data (monitor_system True l env start 20 1)"
  have rows: "rows (DataFrame ?d) = ?d"
    by (simp add: DataFrame_def)
  have "reports (printed (main True True l env start response response_time))
     GpuUtilAverage GpuUtilUnavailable gpu_util ?d"
    by (rule reports_main) (auto simp: monitor_msg_def report_lines rows)
  moreover have "reports (printed (main True True l env start response response_time))
     GpuTempAverage GpuTempUnavailable gpu_temp ?d"
    by (rule reports_main) (auto simp: monitor_msg_def report_lines rows)
  moreover have "reports (printed (main True True l env start response response_time))
     GpuPowerAverage GpuPowerUnavailable gpu_power ?d"
    by (rule reports_main) (auto simp: monitor_msg_def report_lines rows)
  moreover have "collection (main True True l env start response response_time) =
     Some (DataFrame ?d)"
    by (simp add: main_run Let_def)
  ultimately show ?thesis
    by blast
qed

text \<open>
  Three runs: a device with no sensor at all (every metric unavailable, no average
  printed), the RX 460 (averages 37, 52 and 45), and the run whose tick 5 fails (the
  averages are still 37, 52 and 45: the row without values does not count).
\<close>

theorem gpu_average_over_present_rows_witness:
  "GpuUtilUnavailable \<in> set (printed (main True True clock_tm blind_env 0 ''n'' 0))
 \<and> GpuUtilAverage 0 \<notin> set (printed (main True True clock_tm blind_env 0 ''n'' 0))
 \<and> GpuPowerUnavailable \<in> set (printed (main True True clock_tm blind_env 0 ''n'' 0))
 \<and> GpuUtilAverage 37 \<in> set (printed (main True True clock_tm steady_env 0 ''n'' 0))
 \<and> GpuPowerAverage 45 \<in> set (printed (main True True clock_tm steady_env 0 ''n'' 0))
 \<and> GpuUtilAverage 37 \<in> set (printed (main True True clock_tm fault_on_tick_5 0 ''n'' 0))
 \<and> GpuTempAverage 52 \<in> set (printed (main True True clock_tm fault_on_tick_5 0 ''n'' 0))
 \<and> GpuUtilUnavailable \<notin> set (printed (main True True clock_tm fault_on_tick_5 0 ''n'' 0))"
proof -
  let ?blind = "data (monitor_system True clock_tm blind_env 0 20 1)"
  let ?steady = "data (monitor_system True clock_tm steady_env 0 20 1)"
  let ?fault = "data (monitor_system True clock_tm fault_on_tick_5 0 20 1)"
  have blind: "gpu_util r = None \<and> gpu_temp r = None \<and> gpu_power r = None"
    if "r \<in> set ?blind" for r
  proof -
    from that obtain i where "i < length ?blind" and "r = ?blind ! i"
      by (auto simp: in_set_conv_nth)
    with row_of_run [of i True clock_tm blind_env 0 20 1] show ?thesis
      by (simp add: blind_reading)
  qed
  have steady: "gpu_util r = Some 37 \<and> gpu_temp r = Some 52 \<and> gpu_power r = Some 45"
    if "r \<in> set ?steady" for r
  proof -
    from that obtain i where "i < length ?steady" and "r = ?steady ! i"
      by (auto simp: in_set_conv_nth)
    with row_of_run [of i True clock_tm steady_env 0 20 1] show ?thesis
      by (simp add: steady_reading)
  qed
  have fault: "(gpu_util r = None \<or> gpu_util r = Some 37) \<and>
      (gpu_temp r = None \<or> gpu_temp r = Some 52)"
    if "r \<in> set ?fault" for r
  proof -
    from that obtain i where i: "i < length ?fault" and r: "r = ?fault ! i"
      by (auto simp: in_set_conv_nth)
    show ?thesis
    proof (cases "i = 4")
      case True
      with row_of_run [OF i] r show ?thesis
        by (simp add: faulty_reading)
    next
      case False
      then have "fault_on_tick_5 i = steady_env i"
        by (simp add: fault_on_tick_5_def)
      with row_of_run [OF i] r show ?thesis
        by (simp add: steady_reading)
    qed
  qed
  have len: "length ?fault = 20" "length ?steady = 20"
    using twenty_ticks [OF sample_envs_take_no_time(2), of True clock_tm 0]
      twenty_ticks [OF sample_envs_take_no_time(1), of True clock_tm 0]
    by simp_all
  have "fault_on_tick_5 0 = steady_env 0"
    by (simp add: fault_on_tick_5_def)
  with row_of_run [of 0 True clock_tm fault_on_tick_5 0 20 1] len
  have first: "gpu_util (?fault ! 0) = Some 37" "gpu_temp (?fault ! 0) = Some 52"
    by (simp_all add: steady_reading)
  from len have in_fault: "?fault ! 0 \<in> set ?fault"
    by simp
  from len have in_steady: "?steady ! 0 \<in> set ?steady"
    by simp
  have m1: "present_mean gpu_util ?steady = 37"
    by (rule present_mean_same) (use steady in_steady in auto)
  have m2: "present_mean gpu_power ?steady = 45"
    by (rule present_mean_same) (use steady in_steady in auto)
  have m3: "present_mean gpu_util ?fault = 37"
    by (rule present_mean_same) (use fault in_fault first in auto)
  have m4: "present_mean gpu_temp ?fault = 52"
    by (rule present_mean_same) (use fault in_fault first in auto)
  have some_steady: "\<not> (\<forall>r \<in> set ?steady. gpu_util r = None)"
    "\<not> (\<forall>r \<in> set ?steady. gpu_power r = None)"
    using steady in_steady by auto
  have some_fault: "\<not> (\<forall>r \<in> set ?fault. gpu_util r = None)"
    "\<not> (\<forall>r \<in> set ?fault. gpu_temp r = None)"
    using in_fault first by auto
  have none_blind: "\<forall>r \<in> set ?blind. gpu_util r = None" "\<forall>r \<in> set ?blind. gpu_power r = None"
    using blind by auto
  from gpu_average_over_present_rows [of clock_tm blind_env 0 "''n''" 0] none_blind
  have b: "GpuUtilUnavailable \<in> set (printed (main True True clock_tm blind_env 0 ''n'' 0))"
    "GpuUtilAverage 0 \<notin> set (printed (main True True clock_tm blind_env 0 ''n'' 0))"
    "GpuPowerUnavailable \<in> set (printed (main True True clock_tm blind_env 0 ''n'' 0))"
    by (simp_all add: reports_def)
  from gpu_average_over_present_rows [of clock_tm steady_env 0 "''n''" 0] some_steady m1 m2
  have s: "GpuUtilAverage 37 \<in> set (printed (main True True clock_tm steady_env 0 ''n'' 0))"
    "GpuPowerAverage 45 \<in> set (printed (main True True clock_tm steady_env 0 ''n'' 0))"
    by (simp_all add: reports_def)
  from gpu_average_over_present_rows [of clock_tm fault_on_tick_5 0 "''n''" 0] some_fault m3 m4
  have f: "GpuUtilAverage 37 \<in> set (printed (main True True clock_tm fault_on_tick_5 0 ''n'' 0))"
    "GpuTempAverage 52 \<in> set (printed (main True True clock_tm fault_on_tick_5 0 ''n'' 0))"
    "GpuUtilUnavailable \<notin> set (printed (main True True clock_tm fault_on_tick_5 0 ''n'' 0))"
    by (simp_all add: reports_def)
  from b s f show ?thesis
    by blast
qed

text \<open>
  C5. With \<open>pyadl\<close> missing, \<open>main\<close> prints the installation guidance and returns:
  \<open>monitor_system\<close> is not called, there is no collection, and no file is written.
\<close>

theorem no_monitoring_without_pyadl:
  "main True False l env start response response_time =
     \<lparr>printed = [Title, Version, CheckingDependencies, AdlUnavailable, PipInstallPyadl,
                 NeedAdrenalinDrivers, RebootAfterDrivers],
      collection = None, saved = None, uncaught = None\<rparr>
 \<and> collection (main core_deps False l env start response response_time) = None
 \<and> saved (main core_deps False l env start response response_time) = None"
  by (simp add: main_def Let_def)

theorem no_monitoring_without_pyadl_witness:
  "collection (main True False clock_tm steady_env 0 ''s'' 0) = None
 \<and> printed (main True False clock_tm steady_env 0 ''s'' 0) =
     [Title, Version, CheckingDependencies, AdlUnavailable, PipInstallPyadl,
      NeedAdrenalinDrivers, RebootAfterDrivers]"
  using no_monitoring_without_pyadl [of clock_tm steady_env 0 "''s''" 0 True]
  by simp



text \<open>
  C6, as amended. In a run of \<open>main\<close> that reaches the prompt, the file is written exactly
  when the response is \<open>s\<close> or \<open>S\<close> (the response is put in lower case before it is
  compared). The file then has the header row
  \<open>timestamp,cpu_util,gpu_util,gpu_temp,gpu_power\<close> and one row per sample, and its name
  is \<open>rx460_monitor_\<close>, the local time of the moment in the format \<open>%Y%m%d_%H%M%S\<close>, and
  \<open>.csv\<close>: eight digits, an underscore and six digits for a calendar time.
\<close>

theorem export_on_s_in_either_case:
  "(saved (main True True l env start response response_time) \<noteq> None
      \<longleftrightarrow> response = ''s'' \<or> response = ''S'')
 \<and> (saved (main True True l env start response response_time) = Some (fname, csv) \<longrightarrow>
      join_commas (header csv) = ''timestamp,cpu_util,gpu_util,gpu_temp,gpu_power''
    \<and> body csv = map csv_row (data (monitor_system True l env start 20 1))
    \<and> length (body csv) = length (data (monitor_system True l env start 20 1))
    \<and> fname = ''rx460_monitor_'' @
        strftime_Ymd_HMS (l (now (monitor_system True l env start 20 1) + max 0 response_time))
        @ ''.csv''
    \<and> (calendar_tm (l (now (monitor_system True l env start 20 1) + max 0 response_time))
        \<longrightarrow> stamp_shaped (take 15 (drop 14 fname)) \<and> length fname = 33))"
proof -
  let ?s = "monitor_system True l env start 20 1"
  let ?t = "l (now ?s + max 0 response_time)"
  have rows: "data ?s \<noteq> []"
    by (rule monitor_system_nonempty) simp
  have trigger: "saved (main True True l env start response response_time) \<noteq> None
      \<longleftrightarrow> response = ''s'' \<or> response = ''S''"
    by (simp add: main_run Let_def lower_s)
  have content: "join_commas (header csv) = ''timestamp,cpu_util,gpu_util,gpu_temp,gpu_power''
    \<and> body csv = map csv_row (data ?s) \<and> length (body csv) = length (data ?s)
    \<and> fname = ''rx460_monitor_'' @ strftime_Ymd_HMS ?t @ ''.csv''
    \<and> (calendar_tm ?t \<longrightarrow> stamp_shaped (take 15 (drop 14 fname)) \<and> length fname = 33)"
    if "saved (main True True l env start response response_time) = Some (fname, csv)"
  proof -
    from that have fname: "fname = ''rx460_monitor_'' @ strftime_Ymd_HMS ?t @ ''.csv''"
      and written: "csv = to_csv (DataFrame (data ?s))"
      by (simp_all add: main_run Let_def split: if_splits)
    have shape: "stamp_shaped (take 15 (drop 14 fname)) \<and> length fname = 33" if "calendar_tm ?t"
    proof -
      from that have "stamp_shaped (strftime_Ymd_HMS ?t)"
        by (rule strftime_Ymd_HMS_shape)
      moreover from this have "length (strftime_Ymd_HMS ?t) = 15"
        by (simp add: stamp_shaped_def)
      ultimately show ?thesis
        by (simp add: fname)
    qed
    from rows have "join_commas (header csv) = ''timestamp,cpu_util,gpu_util,gpu_temp,gpu_power''"
      and "body csv = map csv_row (data ?s)" and "length (body csv) = length (data ?s)"
      by (simp_all add: written to_csv_header to_csv_body)
    with fname shape show ?thesis
      by blast
  qed
  from trigger content show ?thesis
    by blast
qed

theorem export_on_s_in_either_case_witness:
  "saved (main True True clock_tm steady_env 0 ''s'' 3) \<noteq> None
 \<and> saved (main True True clock_tm steady_env 0 ''S'' 3) \<noteq> None
 \<and> saved (main True True clock_tm steady_env 0 ''n'' 3) = None
 \<and> saved (main True True clock_tm steady_env 0 ''si'' 3) = None
 \<and> fst (the (saved (main True True clock_tm steady_env 0 ''s'' 3))) =
     ''rx460_monitor_20240101_000023.csv''
 \<and> length (body (snd (the (saved (main True True clock_tm steady_env 0 ''s'' 3))))) = 20
 \<and> calendar_tm (clock_tm (now (monitor_system True clock_tm steady_env 0 20 1) + max 0 3))"
proof -
  let ?s = "monitor_system True clock_tm steady_env 0 20 1"
  have run: "length (data ?s) = 20" "now ?s = 20"
    using twenty_ticks [OF sample_envs_take_no_time(1), of True clock_tm 0] by simp_all
  have cal: "calendar_tm (clock_tm (now ?s + max 0 3))"
    by (simp add: run calendar_tm_def clock_tm_def)
  have stamp: "strftime_Ymd_HMS (clock_tm (now ?s + max 0 3)) = ''20240101_000023''"
    by (simp add: run strftime_Ymd_HMS_def clock_tm_def Let_def dec.simps zpad_def digit_char_def)
  have s: "saved (main True True clock_tm steady_env 0 ''s'' 3) \<noteq> None"
    using export_on_s_in_either_case [THEN conjunct1, of clock_tm steady_env 0 "''s''" 3]
    by simp
  then obtain fname csv where
    saved: "saved (main True True clock_tm steady_env 0 ''s'' 3) = Some (fname, csv)"
    by auto
  with export_on_s_in_either_case [of clock_tm steady_env 0 "''s''" 3 fname csv] run stamp
  have "fname = ''rx460_monitor_20240101_000023.csv''" "length (body csv) = 20"
    by simp_all
  with saved have named: "fst (the (saved (main True True clock_tm steady_env 0 ''s'' 3))) =
       ''rx460_monitor_20240101_000023.csv''"
    "length (body (snd (the (saved (main True True clock_tm steady_env 0 ''s'' 3))))) = 20"
    by simp_all
  have S: "saved (main True True clock_tm steady_env 0 ''S'' 3) \<noteq> None"
    using export_on_s_in_either_case [THEN conjunct1, of clock_tm steady_env 0 "''S''" 3]
    by simp
  have n: "saved (main True True clock_tm steady_env 0 ''n'' 3) = None"
    using export_on_s_in_either_case [THEN conjunct1, of clock_tm steady_env 0 "''n''" 3]
    by (cases "saved (main True True clock_tm steady_env 0 ''n'' 3)") auto
  have si: "saved (main True True clock_tm steady_env 0 ''si'' 3) = None"
    using export_on_s_in_either_case [THEN conjunct1, of clock_tm steady_env 0 "''si''" 3]
    by (cases "saved (main True True clock_tm steady_env 0 ''si'' 3)") auto
  from s S n si named cal show ?thesis
    by blast
qed

text \<open>
  C6 as it is written fails: the response \<open>S\<close> is not the response \<open>s\<close>, and the file
  is written.
\<close>

theorem capital_s_exports_too:
  "''S'' \<noteq> ''s'' \<and> saved (main True True clock_tm steady_env 0 ''S'' 3) \<noteq> None"
  by (simp add: main_run Let_def lower_s)



text \<open>
  C7, as amended. For every duration and interval, \<open>monitor_system\<close> returns when the
  time since its start has reached the duration, and (for a positive duration) less than
  one period of its last tick later: that tick began before the end time. When the GPU
  reads take no time and 0.1 \<open>\<le>\<close> interval \<open>\<le>\<close> duration, the period is the interval, so
  the time from start to return is in [duration, duration + interval); the \<open>n\<close> rows are
  stamped 0.1 seconds into their ticks, at 0.1, 0.1 + interval, ... after the start, with
  \<open>(n - 1) * interval < duration \<le> n * interval\<close>: the timestamps span \<open>(n - 1) * interval\<close>,
  which is less than the duration.
\<close>

theorem run_ends_within_a_tick_of_the_duration:
  "start + duration \<le> now (monitor_system a l env start duration interval)
 \<and> (0 < duration \<longrightarrow>
      data (monitor_system a l env start duration interval) \<noteq> [] \<and>
      now (monitor_system a l env start duration interval) <
        start + duration +
        tick_period interval
          (env (length (data (monitor_system a l env start duration interval)) - 1)))
 \<and> ((\<forall>k. gpu_read_time (env k) \<le> 0) \<and> 1 / 10 \<le> interval \<and> interval \<le> duration \<longrightarrow>
      now (monitor_system a l env start duration interval) - start < duration + interval \<and>
      (\<exists>n>0. length (data (monitor_system a l env start duration interval)) = n \<and>
         real (n - 1) * interval < duration \<and> duration \<le> real n * interval \<and>
         now (monitor_system a l env start duration interval) = start + real n * interval \<and>
         map timestamp (data (monitor_system a l env start duration interval)) =
           map (\<lambda>i. strftime_HMS (l (start + 1 / 10 + real i * interval))) [0..<n]))"
proof -
  let ?r = "monitor_system a l env start duration interval"
  have reached: "start + duration \<le> now ?r"
    by (rule monitor_system_runs_out)
  have bounded: "data ?r \<noteq> [] \<and>
      now ?r < start + duration + tick_period interval (env (length (data ?r) - 1))"
    if "0 < duration"
  proof -
    from that have rows: "data ?r \<noteq> []"
      by (rule monitor_system_nonempty)
    with last_tick_run [of env start duration interval a l] show ?thesis
      by (simp add: last_tick_began_in_time_def)
  qed
  have ideal: "now ?r - start < duration + interval \<and>
      (\<exists>n>0. length (data ?r) = n \<and> real (n - 1) * interval < duration \<and>
         duration \<le> real n * interval \<and> now ?r = start + real n * interval \<and>
         map timestamp (data ?r) =
           map (\<lambda>i. strftime_HMS (l (start + 1 / 10 + real i * interval))) [0..<n])"
    if "\<forall>k. gpu_read_time (env k) \<le> 0" and "1 / 10 \<le> interval" and "interval \<le> duration"
  proof -
    from that(2,3) have "0 < duration"
      by simp
    from on_schedule_count [OF that(1,2) this, of a l start] obtain n where
      n: "0 < n" "real (n - 1) * interval < duration" "duration \<le> real n * interval"
      and r: "length (data ?r) = n" "now ?r = start + real n * interval"
        "map timestamp (data ?r) =
           map (\<lambda>i. strftime_HMS (l (start + 1 / 10 + real i * interval))) [0..<n]"
      by blast
    from n(1) have "real n * interval = real (n - 1) * interval + interval"
      by (cases n) (simp_all add: algebra_simps)
    with n(2) r(2) have "now ?r - start < duration + interval"
      by simp
    with n r show ?thesis
      by blast
  qed
  from reached bounded ideal show ?thesis
    by blast
qed

text \<open>
  The run of \<open>main\<close>: 20 seconds at 1 second, on the RX 460 with reads that take no time.
  It returns after 20 seconds with 20 rows.
\<close>

theorem run_ends_within_a_tick_of_the_duration_witness:
  "(0::real) + 20 \<le> now (monitor_system True clock_tm steady_env 0 20 1)
 \<and> now (monitor_system True clock_tm steady_env 0 20 1) - 0 < 20 + 1
 \<and> data (monitor_system True clock_tm steady_env 0 20 1) \<noteq> []
 \<and> (0::real) < 20 \<and> (1::real) / 10 \<le> 1 \<and> (1::real) \<le> 20
 \<and> gpu_read_time (steady_env 7) \<le> 0"
proof -
  have ideal: "\<forall>k. gpu_read_time (steady_env k) \<le> 0"
    by (rule sample_envs_take_no_time)
  then have "gpu_read_time (steady_env 7) \<le> 0"
    by blast
  with run_ends_within_a_tick_of_the_duration [of 0 20 True clock_tm steady_env 1] ideal
  show ?thesis
    by simp
qed

text \<open>
  C7 as it is written fails. In that run the first row is stamped \<open>00:00:00\<close> and the
  last \<open>00:00:19\<close>: the timestamps span 19 seconds, which is not in [20, 21), with an
  interval of 1 second and a duration of 20.
\<close>

theorem timestamps_span_less_than_the_duration:
  "(1::real) \<le> 20
 \<and> timestamp (hd (data (monitor_system True clock_tm steady_env 0 20 1))) = ''00:00:00''
 \<and> timestamp (last (data (monitor_system True clock_tm steady_env 0 20 1))) = ''00:00:19''
 \<and> timestamp_span (data (monitor_system True clock_tm steady_env 0 20 1)) = 19
 \<and> \<not> (20 \<le> timestamp_span (data (monitor_system True clock_tm steady_env 0 20 1)) \<and>
        timestamp_span (data (monitor_system True clock_tm steady_env 0 20 1)) < 20 + 1)"
proof -
  let ?d = "data (monitor_system True clock_tm steady_env 0 20 1)"
  have stamps: "map timestamp ?d = map (\<lambda>i. strftime_HMS (clock_tm (0 + 1 / 10 + real i))) [0..<20]"
    and len: "length ?d = 20"
    using twenty_ticks [OF sample_envs_take_no_time(1), of True clock_tm 0] by simp_all
  from len have rows: "?d \<noteq> []"
    by auto
  have "timestamp (hd ?d) = hd (map timestamp ?d)"
    using rows by (simp add: hd_map)
  also have "\<dots> = strftime_HMS (clock_tm (0 + 1 / 10 + real 0))"
    unfolding stamps by (simp add: hd_map)
  also have "\<dots> = ''00:00:00''"
    by (simp add: strftime_HMS_def clock_tm_def Let_def dec.simps zpad_def digit_char_def)
  finally have first: "timestamp (hd ?d) = ''00:00:00''" .
  have "timestamp (last ?d) = last (map timestamp ?d)"
    using rows by (simp add: last_map)
  also have "\<dots> = strftime_HMS (clock_tm (0 + 1 / 10 + real 19))"
    unfolding stamps by (simp add: last_map)
  also have "\<dots> = ''00:00:19''"
    by (simp add: strftime_HMS_def clock_tm_def Let_def dec.simps zpad_def digit_char_def)
  finally have final: "timestamp (last ?d) = ''00:00:19''" .
  have span: "timestamp_span ?d = 19"
    by (simp add: timestamp_span_def first final seconds_of_HMS_def digit_val_def)
  from first final span show ?thesis
    by simp
qed



text \<open>
  C8. A tick is its readings followed by a sleep of \<open>max(0, interval - 0.1)\<close> seconds, 0.1
  seconds being the time the CPU reading blocks. So a tick takes 0.1 seconds, the time
  of the GPU read and that sleep; when 0.1 \<open>\<le>\<close> interval this is the interval and the
  time of the GPU read, and the interval itself when the GPU read takes no time. A run
  of \<open>n\<close> ticks ends at the start time plus the periods of its ticks.
\<close>

theorem tick_is_paced_to_the_interval:
  "tick a l interval e s = sleep (max 0 (interval - 1 / 10)) (tick_body a l e s)
 \<and> now (tick_body a l e s) = now s + 1 / 10 + max 0 (gpu_read_time e)
 \<and> now (sleep secs s) = now s + secs \<and> data (sleep secs s) = data s \<and> out (sleep secs s) = out s
 \<and> now (tick a l interval e s) - now s =
     1 / 10 + max 0 (gpu_read_time e) + max 0 (interval - 1 / 10)
 \<and> (1 / 10 \<le> interval \<longrightarrow>
      now (tick a l interval e s) - now s = interval + max 0 (gpu_read_time e))
 \<and> (1 / 10 \<le> interval \<and> gpu_read_time e \<le> 0 \<longrightarrow>
      now (tick a l interval e s) - now s = interval)
 \<and> (interval \<le> 1 / 10 \<longrightarrow>
      now (tick a l interval e s) - now s = 1 / 10 + max 0 (gpu_read_time e))
 \<and> now (monitor_system a l env start duration interval) =
     start + (\<Sum>k<length (data (monitor_system a l env start duration interval)).
                1 / 10 + max 0 (gpu_read_time (env k)) + max 0 (interval - 1 / 10))"
proof -
  have "now (monitor_system a l env start duration interval) =
     start + (\<Sum>k<length (data (monitor_system a l env start duration interval)).
                1 / 10 + max 0 (gpu_read_time (env k)) + max 0 (interval - 1 / 10))"
    using paced_run [of env start interval a l duration]
    by (simp add: paced_def tick_period_def)
  then show ?thesis
    by (simp add: tick_def now_tick_body sleep_def)
qed

theorem tick_is_paced_to_the_interval_witness:
  "now (tick True clock_tm 1 (steady_env 0) \<lparr>now = 5, data = [], out = []\<rparr>) - 5 = 1
 \<and> now (tick True clock_tm 2 (steady_env 0) \<lparr>now = 5, data = [], out = []\<rparr>) - 5 = 2
 \<and> now (tick True clock_tm (1 / 20) (steady_env 0) \<lparr>now = 5, data = [], out = []\<rparr>) - 5
     = 1 / 10
 \<and> (1::real) / 10 \<le> 1 \<and> gpu_read_time (steady_env 0) \<le> 0"
proof -
  let ?s = "\<lparr>now = 5, data = [], out = []\<rparr> :: monitor_state"
  have no_time: "gpu_read_time (steady_env 0) \<le> 0" "max 0 (gpu_read_time (steady_env 0)) = 0"
    by (simp_all add: steady_env_def)
  have start: "now ?s = 5"
    by simp
  from tick_is_paced_to_the_interval [of True clock_tm 1 "steady_env 0" ?s 0 steady_env 0 20]
  have "1 / 10 \<le> (1::real) \<and> gpu_read_time (steady_env 0) \<le> 0 \<longrightarrow>
      now (tick True clock_tm 1 (steady_env 0) ?s) - now ?s = 1"
    by blast
  with no_time start have one: "now (tick True clock_tm 1 (steady_env 0) ?s) - 5 = 1"
    by simp
  from tick_is_paced_to_the_interval [of True clock_tm 2 "steady_env 0" ?s 0 steady_env 0 20]
  have "1 / 10 \<le> (2::real) \<and> gpu_read_time (steady_env 0) \<le> 0 \<longrightarrow>
      now (tick True clock_tm 2 (steady_env 0) ?s) - now ?s = 2"
    by blast
  with no_time start have two: "now (tick True clock_tm 2 (steady_env 0) ?s) - 5 = 2"
    by simp
  from tick_is_paced_to_the_interval
    [of True clock_tm "1 / 20" "steady_env 0" ?s 0 steady_env 0 20]
  have "1 / 20 \<le> (1::real) / 10 \<longrightarrow>
      now (tick True clock_tm (1 / 20) (steady_env 0) ?s) - now ?s =
      1 / 10 + max 0 (gpu_read_time (steady_env 0))"
    by blast
  with no_time start have short: "now (tick True clock_tm (1 / 20) (steady_env 0) ?s) - 5 = 1 / 10"
    by simp
  from one two short no_time(1) show ?thesis
    by simp
qed

text \<open>
  C9. A tick appends one row, which holds the three values as the adapter returned
  them, and prints as its last line the status line of these values. The status line
  shows \<open>N/A\<close> for utilisation and for temperature exactly when the value is absent or is
  0 (for power: exactly when it is absent); so a reading of 0 is shown as \<open>N/A\<close> and
  stored as 0. Every row of a run is such a row, with its status line in the output.
\<close>

theorem status_line_shows_NA_for_zero:
  assumes "fst (get_amd_gpu_stats a (pyadl e)) = (u, t, p)"
  shows "data (tick a l interval e s) =
           data s @ [\<lparr>timestamp = strftime_HMS (l (now s + 1 / 10 + max 0 (gpu_read_time e))),
                      cpu_util = cpu_percent e, gpu_util = u, gpu_temp = t, gpu_power = p\<rparr>]
       \<and> last (out (tick a l interval e s)) =
           StatusLine (cpu_percent e) (or_NA u) (or_NA t) (power_display p)
       \<and> (or_NA u = NA \<longleftrightarrow> u = None \<or> u = Some 0)
       \<and> (or_NA t = NA \<longleftrightarrow> t = None \<or> t = Some 0)
       \<and> (power_display p = NA \<longleftrightarrow> p = None)
       \<and> (u = Some 0 \<longrightarrow>
            gpu_util (last (data (tick a l interval e s))) = Some 0 \<and>
            (\<exists>c x y. last (out (tick a l interval e s)) = StatusLine c NA x y))
       \<and> (t = Some 0 \<longrightarrow>
            gpu_temp (last (data (tick a l interval e s))) = Some 0 \<and>
            (\<exists>c x y. last (out (tick a l interval e s)) = StatusLine c x NA y))
       \<and> rows_from a env (length (data (monitor_system a l env start duration interval)))
            (monitor_system a l env start duration interval)"
proof -
  have NA: "or_NA v = NA \<longleftrightarrow> v = None \<or> v = Some 0" for v
    by (simp add: or_NA_def split: option.splits)
  have power: "power_display p = NA \<longleftrightarrow> p = None"
    by (simp add: power_display_def split: option.splits)
  have row: "data (tick a l interval e s) =
           data s @ [\<lparr>timestamp = strftime_HMS (l (now s + 1 / 10 + max 0 (gpu_read_time e))),
                      cpu_util = cpu_percent e, gpu_util = u, gpu_temp = t, gpu_power = p\<rparr>]"
    by (simp add: data_tick assms)
  have line: "last (out (tick a l interval e s)) =
           StatusLine (cpu_percent e) (or_NA u) (or_NA t) (power_display p)"
    by (simp add: out_tick assms)
  have rows: "rows_from a env (length (data (monitor_system a l env start duration interval)))
            (monitor_system a l env start duration interval)"
    by (rule rows_from_monitor_system)
  have zero_u: "gpu_util (last (data (tick a l interval e s))) = Some 0 \<and>
            (\<exists>c x y. last (out (tick a l interval e s)) = StatusLine c NA x y)" if "u = Some 0"
    using that by (simp add: row line or_NA_def)
  have zero_t: "gpu_temp (last (data (tick a l interval e s))) = Some 0 \<and>
            (\<exists>c x y. last (out (tick a l interval e s)) = StatusLine c x NA y)" if "t = Some 0"
    using that by (simp add: row line or_NA_def)
  from row line NA [of u] NA [of t] power zero_u zero_t rows show ?thesis
    by blast
qed

text \<open>An idle GPU at 0 percent and 0 degrees: the row holds the zeros, the line shows N/A.\<close>

theorem status_line_shows_NA_for_zero_witness:
  "fst (get_amd_gpu_stats True (pyadl (idle_env 0))) = (Some 0, Some 0, Some 0)
 \<and> data (tick True clock_tm 1 (idle_env 0) \<lparr>now = 0, data = [], out = []\<rparr>) =
     [\<lparr>timestamp = ''00:00:00'', cpu_util = 3, gpu_util = Some 0, gpu_temp = Some 0,
       gpu_power = Some 0\<rparr>]
 \<and> last (out (tick True clock_tm 1 (idle_env 0) \<lparr>now = 0, data = [], out = []\<rparr>)) =
     StatusLine 3 NA NA (Shown 0)"
proof -
  have reading: "fst (get_amd_gpu_stats True (pyadl (idle_env 0))) = (Some 0, Some 0, Some 0)"
    by (simp add: idle_reading)
  have stamp: "strftime_HMS (clock_tm (1 / 10 + max 0 (gpu_read_time (idle_env 0)))) =
      ''00:00:00''"
    by (simp add: idle_env_def strftime_HMS_def clock_tm_def Let_def dec.simps zpad_def
        digit_char_def)
  have cpu: "cpu_percent (idle_env 0) = 3"
    by (simp add: idle_env_def)
  note shown = status_line_shows_NA_for_zero
    [OF reading, of clock_tm 1 "\<lparr>now = 0, data = [], out = []\<rparr>" idle_env 0 20]
  from shown have "data (tick True clock_tm 1 (idle_env 0) \<lparr>now = 0, data = [], out = []\<rparr>) =
     [\<lparr>timestamp = ''00:00:00'', cpu_util = 3, gpu_util = Some 0, gpu_temp = Some 0,
       gpu_power = Some 0\<rparr>]"
    by (simp add: stamp cpu)
  moreover from shown
  have "last (out (tick True clock_tm 1 (idle_env 0) \<lparr>now = 0, data = [], out = []\<rparr>)) =
     StatusLine 3 NA NA (Shown 0)"
    by (simp add: cpu or_NA_def power_display_def)
  ultimately show ?thesis
    using reading by simp
qed



end
